theory Spec2Isabelle
  imports Main "HOL-Library.Sublist"
begin

section \<open>Exceptions\<close>

text \<open>
  The exception classes of \<^verbatim>\<open>exceptions.py\<close> that the handoff pipeline raises, together
  with the built-in Python exceptions that reach its handlers. Messages are dropped,
  except the key of a \<^verbatim>\<open>KeyError\<close>. \<open>FormatNotModelled\<close> marks a format string whose
  replacement fields use a conversion, a format specification or an attribute or index
  lookup: \<^verbatim>\<open>str.format\<close> is modelled for plain field names only.
\<close>

datatype exn =
    ParseError
  | ProcessError
  | GitError
  | ConfigError
  | KeyError string
  | IndexError
  | ValueError
  | OSError
  | OverflowError
  | RecursionError
  | ShutilError
  | FormatNotModelled

section \<open>Regular expressions\<close>

text \<open>
  \<^verbatim>\<open>parsers.py\<close> calls Python's \<^verbatim>\<open>re\<close> module. A compiled pattern is modelled by its
  syntax tree, and \<^verbatim>\<open>Pattern.match\<close> by a backtracking matcher that lists the ways the
  pattern can match at the start of the input, in the engine's order of preference
  (greedy repetition, left alternative first). Characters are 8-bit; \<^verbatim>\<open>\w\<close> is the ASCII
  letters, digits and the underscore.
\<close>

datatype cls =
    CChar char
  | CWord
  | CAny
  | COneOf "char list"
  | CWordOr "char list"
  | CNoneOf "char list"

datatype regex =
    Eps
  | Cls cls
  | Seq regex regex
  | Alt regex regex
  | Star regex
  | Group string regex
  | Bol
  | Eol

definition is_word :: "char \<Rightarrow> bool" where
  "is_word c = (let n = (of_char c :: nat) in
     (48 \<le> n \<and> n \<le> 57) \<or> (65 \<le> n \<and> n \<le> 90) \<or> (97 \<le> n \<and> n \<le> 122) \<or> n = 95)"

definition newline :: char where
  "newline = CHR 0x0A"

fun cls_ok :: "cls \<Rightarrow> char \<Rightarrow> bool" where
  "cls_ok (CChar a) c = (c = a)"
| "cls_ok CWord c = is_word c"
| "cls_ok CAny c = (c \<noteq> newline)"
| "cls_ok (COneOf as) c = (c \<in> set as)"
| "cls_ok (CWordOr as) c = (is_word c \<or> c \<in> set as)"
| "cls_ok (CNoneOf as) c = (c \<notin> set as)"

text \<open>\<^verbatim>\<open>r+\<close> and \<^verbatim>\<open>r?\<close>, both greedy.\<close>

definition Plus :: "regex \<Rightarrow> regex" where
  "Plus r = Seq r (Star r)"

definition Opt :: "regex \<Rightarrow> regex" where
  "Opt r = Alt r Eps"

text \<open>A literal string.\<close>

fun Str :: "string \<Rightarrow> regex" where
  "Str [] = Eps"
| "Str (c # cs) = Seq (Cls (CChar c)) (Str cs)"

text \<open>\<^verbatim>\<open>Pattern.groupindex\<close>: the names of the named groups.\<close>

fun groupindex :: "regex \<Rightarrow> string list" where
  "groupindex Eps = []"
| "groupindex (Cls c) = []"
| "groupindex (Seq r1 r2) = groupindex r1 @ groupindex r2"
| "groupindex (Alt r1 r2) = groupindex r1 @ groupindex r2"
| "groupindex (Star r) = groupindex r"
| "groupindex (Group n r) = n # groupindex r"
| "groupindex Bol = []"
| "groupindex Eol = []"

text \<open>
  \<open>rx r s rest env\<close>: the input is \<open>s\<close>, the matcher stands before \<open>rest\<close> (a suffix of
  \<open>s\<close>) and \<open>env\<close> holds the groups captured so far. Each result is the remaining input and
  the captures after one way of matching \<open>r\<close>. A repetition does not iterate on an empty
  match.
\<close>

function (sequential) rx ::
  "regex \<Rightarrow> string \<Rightarrow> string \<Rightarrow> (string \<rightharpoonup> string) \<Rightarrow> (string \<times> (string \<rightharpoonup> string)) list" where
  "rx Eps s rest env = [(rest, env)]"
| "rx (Cls c) s rest env =
     (case rest of [] \<Rightarrow> [] | x # xs \<Rightarrow> if cls_ok c x then [(xs, env)] else [])"
| "rx (Seq r1 r2) s rest env =
     concat (map (\<lambda>(rest', env'). rx r2 s rest' env') (rx r1 s rest env))"
| "rx (Alt r1 r2) s rest env = rx r1 s rest env @ rx r2 s rest env"
| "rx (Star r) s rest env =
     concat (map (\<lambda>(rest', env').
        if length rest' < length rest then rx (Star r) s rest' env' else [])
        (rx r s rest env)) @ [(rest, env)]"
| "rx (Group n r) s rest env =
     map (\<lambda>(rest', env'). (rest', env'(n \<mapsto> take (length rest - length rest') rest)))
       (rx r s rest env)"
| "rx Bol s rest env = (if length rest = length s then [(rest, env)] else [])"
| "rx Eol s rest env = (if rest = [] \<or> rest = [newline] then [(rest, env)] else [])"
  by pat_completeness auto
termination
  by (relation "measures [\<lambda>(r, s, rest, env). size r, \<lambda>(r, s, rest, env). length rest]") auto

text \<open>
  \<^verbatim>\<open>Pattern.match(s).groupdict()\<close>: the first way of matching at the start of \<open>s\<close>, if there
  is one; every named group of the pattern is a key, and a group that took no part in the
  match has the value \<open>None\<close>. \<open>m_end\<close> is \<^verbatim>\<open>Match.end()\<close>.
\<close>

record match =
  m_end :: nat
  groupdict :: "(string \<times> string option) list"

definition re_match :: "regex \<Rightarrow> string \<Rightarrow> match option" where
  "re_match r s =
     (case rx r s s Map.empty of
        [] \<Rightarrow> None
      | (rest, env) # _ \<Rightarrow>
          Some \<lparr>m_end = length s - length rest,
                groupdict = map (\<lambda>n. (n, env n)) (groupindex r)\<rparr>)"

text \<open>\<^verbatim>\<open>Pattern.fullmatch\<close>: the first way of matching that consumes the whole input.\<close>

definition re_fullmatch :: "regex \<Rightarrow> string \<Rightarrow> match option" where
  "re_fullmatch r s =
     (case filter (\<lambda>(rest, env). rest = []) (rx r s s Map.empty) of
        [] \<Rightarrow> None
      | (rest, env) # _ \<Rightarrow>
          Some \<lparr>m_end = length s,
                groupdict = map (\<lambda>n. (n, env n)) (groupindex r)\<rparr>)"

text \<open>\<^verbatim>\<open>dict.get(key, default)\<close>.\<close>

definition dict_get :: "('k \<times> 'v) list \<Rightarrow> 'k \<Rightarrow> 'v \<Rightarrow> 'v" where
  "dict_get d k dflt = (case map_of d k of Some v \<Rightarrow> v | None \<Rightarrow> dflt)"

section \<open>Filename parser (\<^verbatim>\<open>parsers.py\<close>)\<close>

record ParsedFilename =
  module :: string
  category :: string
  feature :: string
  variant :: "string option"
  extension :: "string option"
  original_name :: string

definition required_groups :: "string list" where
  "required_groups = [''module'', ''category'', ''feature'']"

text \<open>
  What \<^verbatim>\<open>re.compile(pattern)\<close> does: it returns the compiled pattern, or raises
  \<^verbatim>\<open>re.error\<close>, or raises some other exception (\<^verbatim>\<open>OverflowError\<close> for a repetition
  count that is too large, \<^verbatim>\<open>RecursionError\<close> for a pattern nested too deeply).
\<close>

datatype compile_result =
    Compiled regex
  | ReError
  | CompileRaised exn

text \<open>
  \<^verbatim>\<open>FilenameParser.__init__\<close>. \<open>re_compile\<close> is \<^verbatim>\<open>re.compile\<close>. Only \<^verbatim>\<open>re.error\<close> is
  caught and raised again as \<^verbatim>\<open>ParseError\<close>; any other exception leaves the constructor
  as it is. The parser object holds the compiled pattern only.
\<close>

definition FilenameParser_init ::
  "(string \<Rightarrow> compile_result) \<Rightarrow> string \<Rightarrow> exn + regex" where
  "FilenameParser_init re_compile pat =
     (case re_compile pat of
        ReError \<Rightarrow> Inl ParseError
      | CompileRaised e \<Rightarrow> Inl e
      | Compiled r \<Rightarrow>
          if set required_groups \<subseteq> set (groupindex r) then Inr r else Inl ParseError)"

text \<open>\<^verbatim>\<open>not x\<close> for \<open>x\<close> a string or \<open>None\<close>.\<close>

fun falsy :: "string option \<Rightarrow> bool" where
  "falsy None = True"
| "falsy (Some v) = (v = [])"

text \<open>\<^verbatim>\<open>FilenameParser.parse\<close>.\<close>

definition parse :: "regex \<Rightarrow> string \<Rightarrow> exn + ParsedFilename" where
  "parse pat filename =
     (case re_match pat filename of
        None \<Rightarrow> Inl ParseError
      | Some m \<Rightarrow>
          (let groups = groupdict m;
               md = dict_get groups ''module'' None;
               ct = dict_get groups ''category'' None;
               ft = dict_get groups ''feature'' None;
               vr = dict_get groups ''variant'' None;
               ex = dict_get groups ''ext'' (dict_get groups ''extension'' (Some ''''))
           in if falsy md \<or> falsy ct \<or> falsy ft then Inl ParseError
              else Inr \<lparr>module = the md, category = the ct, feature = the ft,
                        variant = vr, extension = ex, original_name = filename\<rparr>))"

section \<open>Format strings\<close>

text \<open>
  \<^verbatim>\<open>template.format(**kw)\<close> with string values. Literal text is copied, \<^verbatim>\<open>{{\<close> and \<^verbatim>\<open>}}\<close>
  stand for one brace, a lone brace is a \<^verbatim>\<open>ValueError\<close>, and \<^verbatim>\<open>{name}\<close> is replaced by
  the keyword argument \<open>name\<close>. With no positional arguments, an empty or numeric field
  name is an \<^verbatim>\<open>IndexError\<close>, and a name that is not a keyword is a \<^verbatim>\<open>KeyError\<close>.
\<close>

definition is_digit :: "char \<Rightarrow> bool" where
  "is_digit c = (let n = (of_char c :: nat) in 48 \<le> n \<and> n \<le> 57)"

definition field_specials :: "char list" where
  "field_specials = [CHR ''{'', CHR ''!'', CHR '':'', CHR ''.'', CHR ''['']"

definition get_field :: "string \<Rightarrow> (string \<times> string) list \<Rightarrow> exn + string" where
  "get_field nm kw =
     (if list_ex (\<lambda>c. c \<in> set field_specials) nm then Inl FormatNotModelled
      else if list_all is_digit nm then Inl IndexError
      else (case map_of kw nm of None \<Rightarrow> Inl (KeyError nm) | Some v \<Rightarrow> Inr v))"

text \<open>Text put in front of the formatted rest, when formatting the rest succeeds.\<close>

definition prepend :: "string \<Rightarrow> exn + string \<Rightarrow> exn + string" where
  "prepend t r = (case r of Inl e \<Rightarrow> Inl e | Inr s \<Rightarrow> Inr (t @ s))"

fun format_lit :: "string \<Rightarrow> (string \<times> string) list \<Rightarrow> exn + string"
  and format_field :: "string \<Rightarrow> string \<Rightarrow> (string \<times> string) list \<Rightarrow> exn + string" where
  "format_lit [] kw = Inr []"
| "format_lit (c # cs) kw =
     (if c = CHR ''{'' then
        (case cs of
           [] \<Rightarrow> Inl ValueError
         | d # ds \<Rightarrow>
             if d = CHR ''{'' then prepend [c] (format_lit ds kw)
             else format_field [] cs kw)
      else if c = CHR ''}'' then
        (case cs of
           [] \<Rightarrow> Inl ValueError
         | d # ds \<Rightarrow>
             if d = CHR ''}'' then prepend [c] (format_lit ds kw)
             else Inl ValueError)
      else prepend [c] (format_lit cs kw))"
| "format_field acc [] kw = Inl ValueError"
| "format_field acc (c # cs) kw =
     (if c = CHR ''}'' then
        (case get_field (rev acc) kw of
           Inl e \<Rightarrow> Inl e
         | Inr v \<Rightarrow> prepend v (format_lit cs kw))
      else format_field (c # acc) cs kw)"

definition format_str :: "string \<Rightarrow> (string \<times> string) list \<Rightarrow> exn + string" where
  "format_str template kw = format_lit template kw"

section \<open>Paths\<close>

text \<open>
  A \<^verbatim>\<open>pathlib.Path\<close> is modelled as the list of the components of an absolute POSIX
  path; \<open>[]\<close> is the root. As in \<^verbatim>\<open>pathlib\<close>, empty components and \<^verbatim>\<open>.\<close> are dropped when a
  string is turned into a path, a \<^verbatim>\<open>..\<close> component is kept, and joining with an absolute
  string discards the left operand.
\<close>

type_synonym path = "string list"

fun split_on :: "char \<Rightarrow> string \<Rightarrow> string list" where
  "split_on sep [] = [[]]"
| "split_on sep (c # cs) =
     (if c = sep then [] # split_on sep cs
      else (case split_on sep cs of [] \<Rightarrow> [[c]] | x # xs \<Rightarrow> (c # x) # xs))"

definition split_path :: "string \<Rightarrow> path" where
  "split_path s = filter (\<lambda>c. c \<noteq> [] \<and> c \<noteq> ''.'') (split_on CHR ''/'' s)"

definition is_absolute :: "string \<Rightarrow> bool" where
  "is_absolute s = (case s of [] \<Rightarrow> False | c # _ \<Rightarrow> c = CHR ''/'')"

text \<open>\<^verbatim>\<open>p / s\<close>.\<close>

definition pjoin :: "path \<Rightarrow> string \<Rightarrow> path" where
  "pjoin p s = (if is_absolute s then split_path s else p @ split_path s)"

text \<open>\<^verbatim>\<open>p.name\<close>, \<^verbatim>\<open>p.parent\<close>, \<^verbatim>\<open>p.suffix\<close>, \<^verbatim>\<open>p.stem\<close> and \<^verbatim>\<open>str(p)\<close> for a relative \<open>p\<close>.\<close>

definition name :: "path \<Rightarrow> string" where
  "name p = (if p = [] then [] else last p)"

definition parent :: "path \<Rightarrow> path" where
  "parent p = butlast p"

definition rfind_dot :: "string \<Rightarrow> nat option" where
  "rfind_dot s =
     (if CHR ''.'' \<in> set s
      then Some (length s - 1 - length (takeWhile (\<lambda>c. c \<noteq> CHR ''.'') (rev s)))
      else None)"

definition path_suffix :: "path \<Rightarrow> string" where
  "path_suffix p =
     (case rfind_dot (name p) of
        None \<Rightarrow> []
      | Some i \<Rightarrow> if 0 < i \<and> i < length (name p) - 1 then drop i (name p) else [])"

definition path_stem :: "path \<Rightarrow> string" where
  "path_stem p =
     (case rfind_dot (name p) of
        None \<Rightarrow> name p
      | Some i \<Rightarrow> if 0 < i \<and> i < length (name p) - 1 then take i (name p) else name p)"

fun join_slash :: "string list \<Rightarrow> string" where
  "join_slash [] = ''.''"
| "join_slash [c] = c"
| "join_slash (c # cs) = c @ ''/'' @ join_slash cs"

text \<open>\<^verbatim>\<open>p.relative_to(base)\<close>: a comparison of components; nothing is resolved.\<close>

definition relative_to :: "path \<Rightarrow> path \<Rightarrow> exn + path" where
  "relative_to p base = (if prefix base p then Inr (drop (length base) p) else Inl ValueError)"

section \<open>Path generator (\<^verbatim>\<open>core/path_generator.py\<close>)\<close>

record PathGenerator =
  pg_path_template :: string
  pg_asset_root :: string

text \<open>\<^verbatim>\<open>PathGenerator.generate\<close>.\<close>

definition generate :: "PathGenerator \<Rightarrow> ParsedFilename \<Rightarrow> path \<Rightarrow> exn + path" where
  "generate pg parsed repo_base =
     (case format_str (pg_path_template pg)
             [(''module'', module parsed), (''category'', category parsed),
              (''feature'', feature parsed)] of
        Inl e \<Rightarrow> Inl e
      | Inr rel_dir \<Rightarrow>
          (let full_dir = pjoin (pjoin repo_base (pg_asset_root pg)) rel_dir;
               full_path = pjoin full_dir (original_name parsed)
           in Inr full_path))"

text \<open>\<^verbatim>\<open>PathGenerator.sanitize_path_component\<close>.\<close>

definition unsafe_chars :: "char list" where
  "unsafe_chars = [CHR ''<'', CHR ''>'', CHR '':'', CHR 0x22, CHR ''|'', CHR ''?'', CHR ''*'',
                   CHR 0x5C, CHR ''/'']"

definition str_replace :: "char \<Rightarrow> char \<Rightarrow> string \<Rightarrow> string" where
  "str_replace old new s = map (\<lambda>c. if c = old then new else c) s"

definition sanitize_path_component :: "string \<Rightarrow> string" where
  "sanitize_path_component component =
     (let component = foldl (\<lambda>comp ch. str_replace ch CHR ''_'' comp) component unsafe_chars
      in if length component > 100 then take 100 component else component)"

section \<open>The environment: file system and version-control tool\<close>

text \<open>
  The file system maps a path to a regular file (with its content) or a directory; the
  root always exists. The calls the pipeline makes are modelled on a POSIX system with
  one file system and no symbolic links.
\<close>

datatype node = File string | Dir

type_synonym filesystem = "path \<Rightarrow> node option"

definition exists :: "filesystem \<Rightarrow> path \<Rightarrow> bool" where
  "exists fs p = (p = [] \<or> fs p \<noteq> None)"

definition is_dir :: "filesystem \<Rightarrow> path \<Rightarrow> bool" where
  "is_dir fs p = (p = [] \<or> fs p = Some Dir)"

definition is_file :: "filesystem \<Rightarrow> path \<Rightarrow> bool" where
  "is_file fs p = (case fs p of Some (File c) \<Rightarrow> p \<noteq> [] | _ \<Rightarrow> False)"

text \<open>
  \<^verbatim>\<open>p.mkdir(parents=True, exist_ok=True)\<close>: fails when \<open>p\<close> or one of its ancestors is a
  regular file, and otherwise makes all of them directories.
\<close>

definition mkdir_parents :: "path \<Rightarrow> filesystem \<Rightarrow> exn + filesystem" where
  "mkdir_parents p fs =
     (if list_ex (is_file fs) (prefixes p) then Inl OSError
      else Inr (\<lambda>q. if prefix q p then Some Dir else fs q))"

text \<open>The directory \<open>src\<close> with everything below it, renamed to \<open>dst\<close>.\<close>

definition rename_tree :: "path \<Rightarrow> path \<Rightarrow> filesystem \<Rightarrow> filesystem" where
  "rename_tree src dst fs =
     (\<lambda>p. if prefix dst p then fs (src @ drop (length dst) p)
          else if prefix src p then None
          else fs p)"

text \<open>
  \<^verbatim>\<open>shutil.move(src, dst)\<close>. A destination that is a directory receives the source under
  its own name, unless that name is taken. A regular file replaces a regular file at the
  destination and needs the destination's directory. A directory is moved with
  everything below it, to a place that is free and not inside it; when the destination's
  directory is missing, the copy that \<^verbatim>\<open>shutil.move\<close> falls back to creates it.
\<close>

definition shutil_move :: "path \<Rightarrow> path \<Rightarrow> filesystem \<Rightarrow> exn + filesystem" where
  "shutil_move src dst fs =
     (if is_dir fs dst \<and> src = dst then Inr fs
      else
        (let real_dst = (if is_dir fs dst then dst @ [name src] else dst)
         in if is_dir fs dst \<and> exists fs real_dst then Inl ShutilError
            else
              (case fs src of
                 None \<Rightarrow> Inl OSError
               | Some (File c) \<Rightarrow>
                   if src = [] \<or> \<not> is_dir fs (parent real_dst) then Inl OSError
                   else Inr ((fs(src := None))(real_dst \<mapsto> File c))
               | Some Dir \<Rightarrow>
                   if src = [] \<or> prefix src real_dst then Inl ShutilError
                   else if exists fs real_dst then Inl OSError
                   else if is_dir fs (parent real_dst) then Inr (rename_tree src real_dst fs)
                   else (case mkdir_parents (parent real_dst) fs of
                           Inl e \<Rightarrow> Inl e
                         | Inr fs' \<Rightarrow> Inr (rename_tree src real_dst fs')))))"

text \<open>
  A run of the version-control tool by \<^verbatim>\<open>subprocess.run(..., check=True, capture_output=True)\<close>
  completes, or exits non-zero (\<^verbatim>\<open>CalledProcessError\<close>, with the captured standard output
  and standard error), or cannot be started (an \<^verbatim>\<open>OSError\<close>).
\<close>

datatype run_result =
    Completed
  | CalledProcessError string string
  | SpawnError

text \<open>
  What the environment answers: the outcome of each command line, what the file system
  looks like after the run (the tool, or anyone else, may have changed it meanwhile), and
  the time stamp \<^verbatim>\<open>datetime.now().strftime("%Y%m%d_%H%M%S")\<close>.
\<close>

record env =
  git_result :: "string list \<Rightarrow> run_result"
  git_effect :: "string list \<Rightarrow> filesystem \<Rightarrow> filesystem"
  now :: string

text \<open>The state: the file system and the command lines run so far, oldest first.\<close>

record world =
  fs :: filesystem
  git_log :: "string list list"

section \<open>Repository adapter (\<^verbatim>\<open>core/git_repo.py\<close>)\<close>

text \<open>\<^verbatim>\<open>GitRepo._run_git\<close>.\<close>

definition run_git :: "env \<Rightarrow> string list \<Rightarrow> world \<Rightarrow> run_result \<times> world" where
  "run_git ev args w =
     (git_result ev args, w\<lparr>fs := git_effect ev args (fs w), git_log := git_log w @ [args]\<rparr>)"

text \<open>\<^verbatim>\<open>GitRepo.exists\<close>.\<close>

definition repo_exists :: "path \<Rightarrow> world \<Rightarrow> bool" where
  "repo_exists repo_path w = exists (fs w) (repo_path @ [''.git''])"

text \<open>\<^verbatim>\<open>"nothing to commit" in e.stderr\<close>.\<close>

fun contains :: "string \<Rightarrow> string \<Rightarrow> bool" where
  "contains [] sub = (sub = [])"
| "contains (c # cs) sub = (prefix sub (c # cs) \<or> contains cs sub)"

text \<open>\<^verbatim>\<open>GitRepo.pull\<close>.\<close>

definition pull :: "env \<Rightarrow> world \<Rightarrow> (exn + unit) \<times> world" where
  "pull ev w =
     (case run_git ev [''pull''] w of
        (Completed, w') \<Rightarrow> (Inr (), w')
      | (CalledProcessError out err, w') \<Rightarrow> (Inl GitError, w')
      | (SpawnError, w') \<Rightarrow> (Inl OSError, w'))"

text \<open>\<^verbatim>\<open>GitRepo.add\<close>.\<close>

definition add :: "env \<Rightarrow> path \<Rightarrow> path \<Rightarrow> world \<Rightarrow> (exn + unit) \<times> world" where
  "add ev repo_path file_path w =
     (case relative_to file_path repo_path of
        Inl e \<Rightarrow> (Inl GitError, w)
      | Inr rel_path \<Rightarrow>
          (case run_git ev [''add'', join_slash rel_path] w of
             (Completed, w') \<Rightarrow> (Inr (), w')
           | (CalledProcessError out err, w') \<Rightarrow> (Inl GitError, w')
           | (SpawnError, w') \<Rightarrow> (Inl OSError, w')))"

text \<open>\<^verbatim>\<open>GitRepo.commit\<close>.\<close>

definition commit :: "env \<Rightarrow> string \<Rightarrow> world \<Rightarrow> (exn + unit) \<times> world" where
  "commit ev message w =
     (case run_git ev [''commit'', ''-m'', message] w of
        (Completed, w') \<Rightarrow> (Inr (), w')
      | (CalledProcessError out err, w') \<Rightarrow>
          if contains err ''nothing to commit'' then (Inr (), w') else (Inl GitError, w')
      | (SpawnError, w') \<Rightarrow> (Inl OSError, w'))"

text \<open>\<^verbatim>\<open>GitRepo.push\<close>.\<close>

definition push :: "env \<Rightarrow> string option \<Rightarrow> world \<Rightarrow> (exn + unit) \<times> world" where
  "push ev branch w =
     (case run_git ev (if falsy branch then [''push''] else [''push'', ''origin'', the branch]) w of
        (Completed, w') \<Rightarrow> (Inr (), w')
      | (CalledProcessError out err, w') \<Rightarrow> (Inl GitError, w')
      | (SpawnError, w') \<Rightarrow> (Inl OSError, w'))"

text \<open>\<^verbatim>\<open>GitRepo.remove\<close>.\<close>

definition remove :: "env \<Rightarrow> path \<Rightarrow> path \<Rightarrow> world \<Rightarrow> (exn + unit) \<times> world" where
  "remove ev repo_path file_path w =
     (case relative_to file_path repo_path of
        Inl e \<Rightarrow> (Inl GitError, w)
      | Inr rel_path \<Rightarrow>
          (case run_git ev [''rm'', join_slash rel_path] w of
             (Completed, w') \<Rightarrow> (Inr (), w')
           | (CalledProcessError out err, w') \<Rightarrow> (Inl GitError, w')
           | (SpawnError, w') \<Rightarrow> (Inl OSError, w')))"

section \<open>Configuration (\<^verbatim>\<open>core/config.py\<close>)\<close>

text \<open>
  The settings the pipeline reads, and the workspace directories that
  \<^verbatim>\<open>Config._resolve_paths\<close> derives from the resolved base directory.
\<close>

record Config =
  workspace_base :: path
  naming_pattern :: string
  path_template :: string
  asset_root :: string
  git_commit_template :: string

definition Config_inbox :: "Config \<Rightarrow> path" where
  "Config_inbox c = workspace_base c @ [''inbox'']"

definition Config_repo :: "Config \<Rightarrow> path" where
  "Config_repo c = workspace_base c @ [''.repo'']"

definition Config_failed :: "Config \<Rightarrow> path" where
  "Config_failed c = workspace_base c @ [''failed'']"

section \<open>Handoff orchestrator (\<^verbatim>\<open>core/processor.py\<close>)\<close>

record FileProcessor =
  config :: Config
  parser :: regex
  path_gen :: PathGenerator
  repo :: path

text \<open>\<^verbatim>\<open>FileProcessor.__init__\<close>.\<close>

definition FileProcessor_init ::
  "(string \<Rightarrow> compile_result) \<Rightarrow> Config \<Rightarrow> exn + FileProcessor" where
  "FileProcessor_init re_compile c =
     (case FilenameParser_init re_compile (naming_pattern c) of
        Inl e \<Rightarrow> Inl e
      | Inr r \<Rightarrow>
          Inr \<lparr>config = c, parser = r,
               path_gen = \<lparr>pg_path_template = path_template c, pg_asset_root = asset_root c\<rparr>,
               repo = Config_repo c\<rparr>)"

text \<open>
  \<^verbatim>\<open>FileProcessor._move_to_failed\<close>. Every exception is caught and reported; the
  directory made before a failing move stays.
\<close>

definition move_to_failed :: "Config \<Rightarrow> env \<Rightarrow> path \<Rightarrow> world \<Rightarrow> world" where
  "move_to_failed c ev file_path w =
     (case mkdir_parents (Config_failed c) (fs w) of
        Inl e \<Rightarrow> w
      | Inr fs1 \<Rightarrow>
          (let failed_path = Config_failed c @ [name file_path];
               failed_path =
                 (if exists fs1 failed_path
                  then Config_failed c @
                         [path_stem file_path @ ''_'' @ now ev @ path_suffix file_path]
                  else failed_path)
           in case shutil_move file_path failed_path fs1 of
                Inl e \<Rightarrow> w\<lparr>fs := fs1\<rparr>
              | Inr fs2 \<Rightarrow> w\<lparr>fs := fs2\<rparr>))"

text \<open>\<^verbatim>\<open>FileProcessor._handle_git_failure\<close>.\<close>

definition handle_git_failure :: "Config \<Rightarrow> env \<Rightarrow> path \<Rightarrow> path \<Rightarrow> world \<Rightarrow> world" where
  "handle_git_failure c ev target_path original_path w =
     (if exists (fs w) (parent original_path)
      then (case shutil_move target_path original_path (fs w) of
              Inl e \<Rightarrow> w
            | Inr fs' \<Rightarrow> w\<lparr>fs := fs'\<rparr>)
      else move_to_failed c ev target_path w)"

text \<open>The commit message of \<^verbatim>\<open>FileProcessor.process\<close>.\<close>

definition commit_message :: "FileProcessor \<Rightarrow> ParsedFilename \<Rightarrow> exn + string" where
  "commit_message pr parsed =
     format_str (git_commit_template (config pr))
       [(''module'', module parsed), (''category'', category parsed),
        (''feature'', feature parsed)]"

text \<open>Step 5 of \<^verbatim>\<open>FileProcessor.process\<close>: pull, add, commit, push.\<close>

definition git_stage ::
  "FileProcessor \<Rightarrow> env \<Rightarrow> ParsedFilename \<Rightarrow> path \<Rightarrow> world \<Rightarrow> (exn + unit) \<times> world" where
  "git_stage pr ev parsed target_path w =
     (case pull ev w of
        (Inl e, w1) \<Rightarrow> (Inl e, w1)
      | (Inr _, w1) \<Rightarrow>
     (case add ev (repo pr) target_path w1 of
        (Inl e, w2) \<Rightarrow> (Inl e, w2)
      | (Inr _, w2) \<Rightarrow>
     (case commit_message pr parsed of
        Inl e \<Rightarrow> (Inl e, w2)
      | Inr commit_msg \<Rightarrow>
     (case commit ev commit_msg w2 of
        (Inl e, w3) \<Rightarrow> (Inl e, w3)
      | (Inr _, w3) \<Rightarrow> push ev None w3))))"

text \<open>
  The body of the outer \<^verbatim>\<open>try\<close> of \<^verbatim>\<open>FileProcessor.process\<close>: \<open>Inr\<close> is the value it
  returns, \<open>Inl\<close> the exception that leaves it.
\<close>

definition process_try :: "FileProcessor \<Rightarrow> env \<Rightarrow> path \<Rightarrow> world \<Rightarrow> (exn + bool) \<times> world" where
  "process_try pr ev file_path w =
     (if \<not> repo_exists (repo pr) w then (Inl ProcessError, w)
      else
     (case parse (parser pr) (name file_path) of
        Inl e \<Rightarrow> (Inl (if e = ParseError then ProcessError else e), w)
      | Inr parsed \<Rightarrow>
     (case generate (path_gen pr) parsed (Config_repo (config pr)) of
        Inl e \<Rightarrow> (Inl e, w)
      | Inr target_path \<Rightarrow>
     (case mkdir_parents (parent target_path) (fs w) of
        Inl e \<Rightarrow> (Inl e, w)
      | Inr fs1 \<Rightarrow>
     (case shutil_move file_path target_path fs1 of
        Inl e \<Rightarrow> (Inl e, w\<lparr>fs := fs1\<rparr>)
      | Inr fs2 \<Rightarrow>
     (case git_stage pr ev parsed target_path (w\<lparr>fs := fs2\<rparr>) of
        (Inl e, w3) \<Rightarrow>
          if e = GitError
          then (Inr False, handle_git_failure (config pr) ev target_path file_path w3)
          else (Inl e, w3)
      | (Inr _, w3) \<Rightarrow>
          (case relative_to target_path (Config_repo (config pr)) of
             Inl e \<Rightarrow> (Inl e, w3)
           | Inr rel \<Rightarrow> (Inr True, w3))))))))"

text \<open>
  \<^verbatim>\<open>FileProcessor.process\<close>: both handlers of the outer \<^verbatim>\<open>try\<close> call
  \<^verbatim>\<open>_move_to_failed(file_path)\<close> and return \<^verbatim>\<open>False\<close>.
\<close>

definition process :: "FileProcessor \<Rightarrow> env \<Rightarrow> path \<Rightarrow> world \<Rightarrow> bool \<times> world" where
  "process pr ev file_path w =
     (case process_try pr ev file_path w of
        (Inr b, w') \<Rightarrow> (b, w')
      | (Inl e, w') \<Rightarrow> (False, move_to_failed (config pr) ev file_path w'))"

section \<open>Scenarios\<close>

text \<open>
  Concrete patterns, configurations and environments on which the properties below are
  exercised. \<open>scenario_regex\<close> is the compiled form of the pattern of the sample
  configuration,
  \<^verbatim>\<open>^(?P<module>\w+)_(?P<category>\w+)_(?P<feature>[\w-]+)\.(?P<ext>\w+)$\<close>.
\<close>

definition underscore :: regex where
  "underscore = Cls (CChar CHR ''_'')"

definition dot :: regex where
  "dot = Cls (CChar CHR ''.'')"

definition scenario_regex :: regex where
  "scenario_regex =
     Seq Bol (Seq (Group ''module'' (Plus (Cls CWord))) (Seq underscore
     (Seq (Group ''category'' (Plus (Cls CWord))) (Seq underscore
     (Seq (Group ''feature'' (Plus (Cls (CWordOr ''-'')))) (Seq dot
     (Seq (Group ''ext'' (Plus (Cls CWord))) Eol)))))))"

text \<open>\<^verbatim>\<open>(?P<module>\w+)_(?P<category>\w+)_(?P<feature>\w+)\<close>: no anchors.\<close>

definition unanchored_regex :: regex where
  "unanchored_regex =
     Seq (Group ''module'' (Plus (Cls CWord))) (Seq underscore
     (Seq (Group ''category'' (Plus (Cls CWord))) (Seq underscore
     (Group ''feature'' (Plus (Cls CWord))))))"

text \<open>
  \<^verbatim>\<open>^(?P<module>\w+)_(?P<category>\w+)_(?P<feature>\w+)(\.(?P<ext>\w+))?$\<close>: the
  extension is optional.
\<close>

definition optional_ext_regex :: regex where
  "optional_ext_regex =
     Seq Bol (Seq (Group ''module'' (Plus (Cls CWord))) (Seq underscore
     (Seq (Group ''category'' (Plus (Cls CWord))) (Seq underscore
     (Seq (Group ''feature'' (Plus (Cls CWord)))
     (Seq (Opt (Seq dot (Group ''ext'' (Plus (Cls CWord))))) Eol))))))"

text \<open>
  \<^verbatim>\<open>^(?P<module>[^_]+)_(?P<category>[^_]+)_(?P<feature>[^_.]+)\.(?P<ext>\w+)$\<close>: the
  fields may hold any character but the separators.
\<close>

definition loose_regex :: regex where
  "loose_regex =
     Seq Bol (Seq (Group ''module'' (Plus (Cls (CNoneOf ''_'')))) (Seq underscore
     (Seq (Group ''category'' (Plus (Cls (CNoneOf ''_'')))) (Seq underscore
     (Seq (Group ''feature'' (Plus (Cls (CNoneOf ''_.'')))) (Seq dot
     (Seq (Group ''ext'' (Plus (Cls CWord))) Eol)))))))"

text \<open>
  A stand-in for \<^verbatim>\<open>re.compile\<close> that knows three pattern strings:
  \<^verbatim>\<open>(?P<module>[a-z]+)_(?P<category>[a-z]+)_(?P<feature>[a-z]+)\<close>, the pattern
  \<^verbatim>\<open>(?P<module>[a-z]+)\<close> with one group only, and
  \<^verbatim>\<open>(?P<module>a{4294967295})_(?P<category>b)_(?P<feature>c)\<close>, on which
  \<^verbatim>\<open>re.compile\<close> raises \<^verbatim>\<open>OverflowError\<close>. It rejects every other string with
  \<^verbatim>\<open>re.error\<close>, as \<^verbatim>\<open>re.compile\<close> rejects \<^verbatim>\<open>(\<close>.
\<close>

definition lower_case :: "char list" where
  "lower_case = ''abcdefghijklmnopqrstuvwxyz''"

definition re_compile_sample :: "string \<Rightarrow> compile_result" where
  "re_compile_sample pat =
     (if pat = ''(?P<module>[a-z]+)_(?P<category>[a-z]+)_(?P<feature>[a-z]+)''
      then Compiled (Seq (Group ''module'' (Plus (Cls (COneOf lower_case)))) (Seq underscore
                    (Seq (Group ''category'' (Plus (Cls (COneOf lower_case)))) (Seq underscore
                    (Group ''feature'' (Plus (Cls (COneOf lower_case))))))))
      else if pat = ''(?P<module>[a-z]+)''
      then Compiled (Group ''module'' (Plus (Cls (COneOf lower_case))))
      else if pat = ''(?P<module>a{4294967295})_(?P<category>b)_(?P<feature>c)''
      then CompileRaised OverflowError
      else ReError)"

text \<open>
  What a path names once its \<^verbatim>\<open>..\<close> components are resolved (no symbolic links): each
  \<^verbatim>\<open>..\<close> drops the component before it, and stays at the root there.
\<close>

definition resolve :: "path \<Rightarrow> path" where
  "resolve p = foldl (\<lambda>acc c. if c = ''..'' then butlast acc else acc @ [c]) [] p"

text \<open>An environment in which every command succeeds and nothing else changes.\<close>

definition env_ok :: env where
  "env_ok = \<lparr>git_result = (\<lambda>args. Completed), git_effect = (\<lambda>args fs. fs),
             now = ''20240101_120000''\<rparr>"

text \<open>
  An environment in which \<^verbatim>\<open>git commit\<close> exits non-zero with the given output, and every
  other command succeeds.
\<close>

definition env_commit_fails :: "string \<Rightarrow> string \<Rightarrow> env" where
  "env_commit_fails out err =
     \<lparr>git_result = (\<lambda>args. case args of
                        [] \<Rightarrow> Completed
                      | a # _ \<Rightarrow> if a = ''commit'' then CalledProcessError out err else Completed),
      git_effect = (\<lambda>args fs. fs),
      now = ''20240101_120000''\<rparr>"

definition empty_world :: world where
  "empty_world = \<lparr>fs = Map.empty, git_log = []\<rparr>"

text \<open>
  What \<^verbatim>\<open>git commit\<close> answers when nothing is staged: it exits with status 1, the report
  is on the standard output and the standard error is empty.
\<close>

definition nothing_staged_stdout :: string where
  "nothing_staged_stdout =
     ''On branch main'' @ [newline] @ ''nothing to commit, working tree clean'' @ [newline]"

definition env_nothing_staged :: env where
  "env_nothing_staged = env_commit_fails nothing_staged_stdout []"

text \<open>
  Templates built from literal text without braces, the escapes \<^verbatim>\<open>{{\<close> and \<^verbatim>\<open>}}\<close>, and
  placeholders \<^verbatim>\<open>{name}\<close>: \<open>render\<close> is the format string, \<open>fill\<close> the text that
  replaces a piece.
\<close>

datatype piece = Text string | OpenBrace | CloseBrace | Placeholder string

fun render :: "piece list \<Rightarrow> string" where
  "render [] = []"
| "render (Text t # ps) = t @ render ps"
| "render (OpenBrace # ps) = ''{{'' @ render ps"
| "render (CloseBrace # ps) = ''}}'' @ render ps"
| "render (Placeholder n # ps) = ''{'' @ n @ ''}'' @ render ps"

fun piece_ok :: "string list \<Rightarrow> piece \<Rightarrow> bool" where
  "piece_ok names (Text t) = (CHR ''{'' \<notin> set t \<and> CHR ''}'' \<notin> set t)"
| "piece_ok names OpenBrace = True"
| "piece_ok names CloseBrace = True"
| "piece_ok names (Placeholder n) = (n \<in> set names)"

fun fill :: "(string \<times> string) list \<Rightarrow> piece \<Rightarrow> string" where
  "fill kw (Text t) = t"
| "fill kw OpenBrace = ''{''"
| "fill kw CloseBrace = ''}''"
| "fill kw (Placeholder n) = (case map_of kw n of None \<Rightarrow> [] | Some v \<Rightarrow> v)"

text \<open>\<^verbatim>\<open>DEFAULT_COMMIT_TEMPLATE\<close> of \<^verbatim>\<open>constants.py\<close>.\<close>

definition DEFAULT_COMMIT_TEMPLATE :: string where
  "DEFAULT_COMMIT_TEMPLATE =
     ''feat(assets): Add {category}'' @ [newline, newline] @
     ''Feature: {feature}'' @ [newline] @
     ''Files: {file_count}'' @ [newline, newline] @
     ''{file_list}''"

text \<open>A string that is one path component: not empty, not \<^verbatim>\<open>.\<close>, without a slash.\<close>

definition plain_component :: "string \<Rightarrow> bool" where
  "plain_component s = (s \<noteq> [] \<and> s \<noteq> ''.'' \<and> CHR ''/'' \<notin> set s)"

text \<open>The sample configuration of the tests, in the workspace \<^verbatim>\<open>/ws\<close>.\<close>

definition backslash :: char where
  "backslash = CHR 0x5C"

definition scenario_config :: Config where
  "scenario_config =
     \<lparr>workspace_base = [''ws''],
      naming_pattern =
        ''^(?P<module>'' @ [backslash] @ ''w+)_(?P<category>'' @ [backslash] @
        ''w+)_(?P<feature>['' @ [backslash] @ ''w-]+)'' @ [backslash] @ ''.(?P<ext>'' @
        [backslash] @ ''w+)$'',
      path_template = ''{module}/{category}/{feature}/'',
      asset_root = ''Assets/GameRes/'',
      git_commit_template = ''Update {category}: {feature}''\<rparr>"

definition scenario_path_gen :: PathGenerator where
  "scenario_path_gen =
     \<lparr>pg_path_template = ''{module}/{category}/{feature}/'', pg_asset_root = ''Assets/GameRes/''\<rparr>"

definition scenario_processor :: FileProcessor where
  "scenario_processor =
     \<lparr>config = scenario_config, parser = scenario_regex, path_gen = scenario_path_gen,
      repo = [''ws'', ''.repo'']\<rparr>"

text \<open>The same processor with the default commit template of \<^verbatim>\<open>constants.py\<close>.\<close>

definition default_template_processor :: FileProcessor where
  "default_template_processor =
     scenario_processor
       \<lparr>config := scenario_config\<lparr>git_commit_template := DEFAULT_COMMIT_TEMPLATE\<rparr>\<rparr>"

text \<open>A workspace with a cloned repository and one file in the inbox.\<close>

definition inbox_file :: path where
  "inbox_file = [''ws'', ''inbox'', ''GameRes_Character_Hero.fbx'']"

definition target_file :: path where
  "target_file = [''ws'', ''.repo'', ''Assets'', ''GameRes'', ''GameRes'', ''Character'', ''Hero'',
                  ''GameRes_Character_Hero.fbx'']"

definition failed_file :: path where
  "failed_file = [''ws'', ''failed'', ''GameRes_Character_Hero.fbx'']"

definition failed_file_stamped :: path where
  "failed_file_stamped = [''ws'', ''failed'', ''GameRes_Character_Hero_20240101_120000.fbx'']"

definition scenario_fs :: filesystem where
  "scenario_fs =
     [[''ws''] \<mapsto> Dir, [''ws'', ''inbox''] \<mapsto> Dir, [''ws'', ''.repo''] \<mapsto> Dir,
      [''ws'', ''.repo'', ''.git''] \<mapsto> Dir, inbox_file \<mapsto> File ''mesh'']"

definition scenario_world :: world where
  "scenario_world = \<lparr>fs = scenario_fs, git_log = []\<rparr>"

text \<open>The same workspace before the repository was cloned.\<close>

definition no_repo_world :: world where
  "no_repo_world =
     \<lparr>fs = [[''ws''] \<mapsto> Dir, [''ws'', ''inbox''] \<mapsto> Dir, inbox_file \<mapsto> File ''mesh''],
      git_log = []\<rparr>"

text \<open>An environment in which \<^verbatim>\<open>git push\<close> is rejected and nothing else goes wrong.\<close>

definition env_push_fails :: env where
  "env_push_fails =
     \<lparr>git_result = (\<lambda>args. if args = [''push''] then CalledProcessError [] ''rejected''
                            else Completed),
      git_effect = (\<lambda>args fs. fs),
      now = ''20240101_120000''\<rparr>"

text \<open>
  An environment in which \<^verbatim>\<open>git pull\<close> fails and, while it runs, the inbox directory is
  deleted.
\<close>

definition env_inbox_deleted :: env where
  "env_inbox_deleted =
     \<lparr>git_result = (\<lambda>args. if args = [''pull''] then CalledProcessError [] ''no network''
                            else Completed),
      git_effect = (\<lambda>args fs. if args = [''pull''] then fs([''ws'', ''inbox''] := None) else fs),
      now = ''20240101_120000''\<rparr>"

text \<open>
  The three places in which the claims expect a processed file: its inbox path, the
  target path with the commit made and pushed, and the failed directory under its own
  or its time-stamped name.
\<close>

definition in_inbox :: "world \<Rightarrow> path \<Rightarrow> bool" where
  "in_inbox w file_path = is_file (fs w) file_path"

definition committed_and_pushed :: "env \<Rightarrow> world \<Rightarrow> path \<Rightarrow> bool" where
  "committed_and_pushed ev w target_path =
     (is_file (fs w) target_path \<and>
      list_ex (\<lambda>args. take 2 args = [''commit'', ''-m''] \<and>
                 (case git_result ev args of
                    Completed \<Rightarrow> True
                  | CalledProcessError out err \<Rightarrow> contains err ''nothing to commit''
                  | SpawnError \<Rightarrow> False)) (git_log w) \<and>
      [''push''] \<in> set (git_log w) \<and> git_result ev [''push''] = Completed)"

definition in_failed :: "Config \<Rightarrow> env \<Rightarrow> world \<Rightarrow> path \<Rightarrow> bool" where
  "in_failed c ev w file_path =
     (is_file (fs w) (Config_failed c @ [name file_path]) \<or>
      is_file (fs w)
        (Config_failed c @ [path_stem file_path @ ''_'' @ now ev @ path_suffix file_path]))"


text \<open>A workspace whose inbox holds a file that the sample pattern rejects.\<close>

definition bad_file :: path where
  "bad_file = [''ws'', ''inbox'', ''bad name.fbx'']"

definition bad_name_world :: world where
  "bad_name_world =
     \<lparr>fs = [[''ws''] \<mapsto> Dir, [''ws'', ''inbox''] \<mapsto> Dir, [''ws'', ''.repo''] \<mapsto> Dir,
            [''ws'', ''.repo'', ''.git''] \<mapsto> Dir, bad_file \<mapsto> File ''mesh''],
      git_log = []\<rparr>"

text \<open>
  A processor whose pattern lets any character but the separators into the fields, and
  a workspace whose inbox holds a file with a colon in its module part.
\<close>

definition loose_processor :: FileProcessor where
  "loose_processor = scenario_processor\<lparr>parser := loose_regex\<rparr>"

definition colon_file :: path where
  "colon_file = [''ws'', ''inbox'', ''a:b_c_d.x'']"

definition colon_world :: world where
  "colon_world =
     \<lparr>fs = [[''ws''] \<mapsto> Dir, [''ws'', ''inbox''] \<mapsto> Dir, [''ws'', ''.repo''] \<mapsto> Dir,
            [''ws'', ''.repo'', ''.git''] \<mapsto> Dir, colon_file \<mapsto> File ''mesh''],
      git_log = []\<rparr>"

text \<open>An environment in which the version-control tool cannot be started.\<close>

definition env_git_missing :: env where
  "env_git_missing =
     \<lparr>git_result = (\<lambda>args. SpawnError), git_effect = (\<lambda>args fs. fs),
      now = ''20240101_120000''\<rparr>"

section \<open>Properties of the parser\<close>

lemma map_of_groupdict:
  "map_of (map (\<lambda>n. (n, env n)) ns) k = (if k \<in> set ns then Some (env k) else None)"
  by (induction ns) auto

lemma re_match_groupdict:
  assumes "re_match pat s = Some m"
  shows "\<exists>env. groupdict m = map (\<lambda>n. (n, env n)) (groupindex pat)"
  using assms by (auto simp: re_match_def split: list.splits)

text \<open>The keys of the group dictionary are the named groups of the pattern.\<close>

lemma re_match_keys:
  assumes "re_match pat s = Some m"
  shows "(map_of (groupdict m) k = None) = (k \<notin> set (groupindex pat))"
proof -
  obtain env where "groupdict m = map (\<lambda>n. (n, env n)) (groupindex pat)"
    using re_match_groupdict [OF assms] by blast
  then show ?thesis by (simp add: map_of_groupdict)
qed

lemma falsy_iff: "falsy v = (v = None \<or> v = Some [])"
  by (cases v) auto

text \<open>
  Claim C3, as the code has it. The constructor raises \<^verbatim>\<open>ParseError\<close> when
  \<^verbatim>\<open>re.compile\<close> rejects the pattern with \<^verbatim>\<open>re.error\<close> and when the compiled pattern
  lacks one of the groups \<open>module\<close>, \<open>category\<close>, \<open>feature\<close>. Any other exception of
  \<^verbatim>\<open>re.compile\<close> is not caught and leaves the constructor unchanged. The constructor
  fails in no other way, so it raises no configuration error of its own, and it
  succeeds exactly when the pattern compiles and has the three groups. A processor is
  only built around a parser that was constructed, so \<open>parse\<close> never runs on a pattern
  that did not compile or lacks a group.
\<close>

theorem FilenameParser_init_ParseError:
  "(rc pat = ReError \<or>
    (\<exists>r. rc pat = Compiled r \<and>
         (''module'' \<notin> set (groupindex r) \<or> ''category'' \<notin> set (groupindex r) \<or>
          ''feature'' \<notin> set (groupindex r)))
      \<longrightarrow> FilenameParser_init rc pat = Inl ParseError)
   \<and> (\<forall>e. rc pat = CompileRaised e \<longrightarrow> FilenameParser_init rc pat = Inl e)
   \<and> (\<forall>e. FilenameParser_init rc pat = Inl e \<longrightarrow>
          rc pat = CompileRaised e \<or>
          (e = ParseError \<and>
           (rc pat = ReError \<or>
            (\<exists>r. rc pat = Compiled r \<and>
                 (''module'' \<notin> set (groupindex r) \<or> ''category'' \<notin> set (groupindex r) \<or>
                  ''feature'' \<notin> set (groupindex r))))))
   \<and> (\<forall>r. FilenameParser_init rc pat = Inr r \<longleftrightarrow>
          rc pat = Compiled r \<and> ''module'' \<in> set (groupindex r) \<and>
          ''category'' \<in> set (groupindex r) \<and> ''feature'' \<in> set (groupindex r))
   \<and> (\<forall>c pr. FileProcessor_init rc c = Inr pr \<longrightarrow>
          rc (naming_pattern c) = Compiled (parser pr) \<and>
          set required_groups \<subseteq> set (groupindex (parser pr)))"
  by (auto simp: FilenameParser_init_def FileProcessor_init_def required_groups_def
      split: compile_result.splits if_splits sum.splits)

theorem FilenameParser_init_ParseError_witness:
  "re_compile_sample ''(?P<module>[a-z]+)'' =
     Compiled (Group ''module'' (Plus (Cls (COneOf lower_case))))
   \<and> ''category'' \<notin> set (groupindex (Group ''module'' (Plus (Cls (COneOf lower_case)))))
   \<and> FilenameParser_init re_compile_sample ''(?P<module>[a-z]+)'' = Inl ParseError
   \<and> re_compile_sample ''('' = ReError
   \<and> FilenameParser_init re_compile_sample ''('' = Inl ParseError
   \<and> re_compile_sample ''(?P<module>a{4294967295})_(?P<category>b)_(?P<feature>c)'' =
       CompileRaised OverflowError
   \<and> FilenameParser_init re_compile_sample
         ''(?P<module>a{4294967295})_(?P<category>b)_(?P<feature>c)'' = Inl OverflowError"
  using FilenameParser_init_ParseError [of re_compile_sample "''(?P<module>[a-z]+)''"]
    FilenameParser_init_ParseError [of re_compile_sample "''(''"]
    FilenameParser_init_ParseError [of re_compile_sample
      "''(?P<module>a{4294967295})_(?P<category>b)_(?P<feature>c)''"]
  by (simp add: re_compile_sample_def Plus_def)

text \<open>
  Claim C3 as stated fails: for a pattern without the groups \<open>category\<close> and \<open>feature\<close>,
  and for a string that is not a regular expression, the constructor raises
  \<^verbatim>\<open>ParseError\<close>, not a configuration error; and for a pattern on which \<^verbatim>\<open>re.compile\<close>
  raises \<^verbatim>\<open>OverflowError\<close> it fails with that exception.
\<close>

theorem FilenameParser_init_counterexample:
  "FilenameParser_init re_compile_sample ''(?P<module>[a-z]+)'' = Inl ParseError \<and>
   FilenameParser_init re_compile_sample ''(?P<module>[a-z]+)'' \<noteq> Inl ConfigError \<and>
   FilenameParser_init re_compile_sample ''('' = Inl ParseError \<and>
   FilenameParser_init re_compile_sample ''('' \<noteq> Inl ConfigError \<and>
   FilenameParser_init re_compile_sample
     ''(?P<module>a{4294967295})_(?P<category>b)_(?P<feature>c)'' = Inl OverflowError"
  by (simp add: FilenameParser_init_def re_compile_sample_def required_groups_def Plus_def)

text \<open>
  Claim C4, as the code has it. \<open>parse\<close> raises \<^verbatim>\<open>ParseError\<close> exactly when the pattern
  does not match at the start of the filename (\<^verbatim>\<open>Pattern.match\<close>, which does not require
  the match to reach the end of the filename) or one of the groups \<open>module\<close>, \<open>category\<close>,
  \<open>feature\<close> is \<open>None\<close> or empty; it raises nothing else; and otherwise it returns the
  three captured values, all non-empty, with the filename.
\<close>

theorem parse_ParseError_iff:
  "(parse pat f = Inl ParseError \<longleftrightarrow>
      (re_match pat f = None \<or>
       (\<exists>m. re_match pat f = Some m \<and>
            (falsy (dict_get (groupdict m) ''module'' None) \<or>
             falsy (dict_get (groupdict m) ''category'' None) \<or>
             falsy (dict_get (groupdict m) ''feature'' None)))))
   \<and> (\<forall>e. parse pat f = Inl e \<longrightarrow> e = ParseError)
   \<and> (\<forall>p. parse pat f = Inr p \<longrightarrow>
          module p \<noteq> [] \<and> category p \<noteq> [] \<and> feature p \<noteq> [] \<and> original_name p = f \<and>
          (\<exists>m. re_match pat f = Some m \<and>
               map_of (groupdict m) ''module'' = Some (Some (module p)) \<and>
               map_of (groupdict m) ''category'' = Some (Some (category p)) \<and>
               map_of (groupdict m) ''feature'' = Some (Some (feature p))))"
  by (auto simp: parse_def Let_def dict_get_def falsy_iff split: option.splits if_splits)

theorem parse_ParseError_iff_witness:
  "re_match scenario_regex ''bad name.fbx'' = None \<and>
   parse scenario_regex ''bad name.fbx'' = Inl ParseError"
proof -
  have "re_match scenario_regex ''bad name.fbx'' = None"
    by (simp add: re_match_def scenario_regex_def underscore_def dot_def Plus_def is_word_def)
  with parse_ParseError_iff [of scenario_regex "''bad name.fbx''"] show ?thesis by simp
qed

text \<open>
  Claim C4 as stated fails: with a pattern that has no end anchor, a filename of which
  only a prefix matches is accepted, although the pattern does not match the whole
  filename.
\<close>

theorem parse_prefix_counterexample:
  "parse unanchored_regex ''a_b_c!junk'' =
     Inr \<lparr>module = ''a'', category = ''b'', feature = ''c'', variant = None,
          extension = Some '''', original_name = ''a_b_c!junk''\<rparr>
   \<and> re_fullmatch unanchored_regex ''a_b_c!junk'' = None"
  by (simp add: parse_def re_match_def re_fullmatch_def unanchored_regex_def underscore_def
      Plus_def is_word_def dict_get_def)

text \<open>
  Claim C10. \<open>parse\<close> can return \<open>None\<close> as the extension: with an optional group
  \<open>ext\<close> that takes no part in the match, the group dictionary holds \<open>None\<close> under
  \<open>ext\<close> and that value is returned. In general the extension is the entry of \<open>ext\<close>
  when the pattern defines that group, else the entry of \<open>extension\<close> when the pattern
  defines that one, and the empty string only when the pattern defines neither.
\<close>

theorem parse_extension:
  "parse optional_ext_regex ''a_b_c'' =
     Inr \<lparr>module = ''a'', category = ''b'', feature = ''c'', variant = None,
          extension = None, original_name = ''a_b_c''\<rparr>
   \<and> ''ext'' \<in> set (groupindex optional_ext_regex)
   \<and> (parse pat f = Inr p \<and> re_match pat f = Some m \<longrightarrow>
        (''ext'' \<in> set (groupindex pat) \<longrightarrow>
           map_of (groupdict m) ''ext'' = Some (extension p)) \<and>
        (''ext'' \<notin> set (groupindex pat) \<and> ''extension'' \<in> set (groupindex pat) \<longrightarrow>
           map_of (groupdict m) ''extension'' = Some (extension p)) \<and>
        (''ext'' \<notin> set (groupindex pat) \<and> ''extension'' \<notin> set (groupindex pat) \<longrightarrow>
           extension p = Some ''''))"
proof (intro conjI impI)
  show "parse optional_ext_regex ''a_b_c'' =
     Inr \<lparr>module = ''a'', category = ''b'', feature = ''c'', variant = None,
          extension = None, original_name = ''a_b_c''\<rparr>"
    by (simp add: parse_def re_match_def optional_ext_regex_def underscore_def dot_def Plus_def
        Opt_def is_word_def dict_get_def)
  show "''ext'' \<in> set (groupindex optional_ext_regex)"
    by (simp add: optional_ext_regex_def underscore_def dot_def Plus_def Opt_def)
next
  assume h: "parse pat f = Inr p \<and> re_match pat f = Some m"
  then have ex: "extension p =
      dict_get (groupdict m) ''ext'' (dict_get (groupdict m) ''extension'' (Some ''''))"
    by (auto simp: parse_def Let_def split: if_splits)
  note k = re_match_keys [of pat f m]
  { assume "''ext'' \<in> set (groupindex pat)"
    then show "map_of (groupdict m) ''ext'' = Some (extension p)"
      using h ex k [of "''ext''"] by (auto simp: dict_get_def split: option.splits) }
  { assume "''ext'' \<notin> set (groupindex pat) \<and> ''extension'' \<in> set (groupindex pat)"
    then show "map_of (groupdict m) ''extension'' = Some (extension p)"
      using h ex k [of "''ext''"] k [of "''extension''"]
      by (auto simp: dict_get_def split: option.splits) }
  { assume "''ext'' \<notin> set (groupindex pat) \<and> ''extension'' \<notin> set (groupindex pat)"
    then show "extension p = Some ''''"
      using h ex k [of "''ext''"] k [of "''extension''"]
      by (auto simp: dict_get_def split: option.splits) }
qed

theorem parse_extension_witness:
  "parse optional_ext_regex ''a_b_c.x'' =
     Inr \<lparr>module = ''a'', category = ''b'', feature = ''c'', variant = None,
          extension = Some ''x'', original_name = ''a_b_c.x''\<rparr>
   \<and> (\<exists>m. re_match optional_ext_regex ''a_b_c.x'' = Some m \<and>
          map_of (groupdict m) ''ext'' = Some (Some ''x''))"
proof -
  let ?p = "\<lparr>module = ''a'', category = ''b'', feature = ''c'', variant = None,
          extension = Some ''x'', original_name = ''a_b_c.x''\<rparr>"
  have 1: "parse optional_ext_regex ''a_b_c.x'' = Inr ?p"
    by (simp add: parse_def re_match_def optional_ext_regex_def underscore_def dot_def Plus_def
        Opt_def is_word_def dict_get_def)
  obtain m where 2: "re_match optional_ext_regex ''a_b_c.x'' = Some m"
    by (simp add: re_match_def optional_ext_regex_def underscore_def dot_def Plus_def
        Opt_def is_word_def)
  have 3: "''ext'' \<in> set (groupindex optional_ext_regex)"
    by (simp add: optional_ext_regex_def underscore_def dot_def Plus_def Opt_def)
  from parse_extension [of optional_ext_regex "''a_b_c.x''" ?p m] 1 2 3
  show ?thesis by simp
qed

section \<open>Properties of the repository adapter\<close>

text \<open>\<open>contains s sub\<close> is the substring test \<^verbatim>\<open>sub in s\<close>.\<close>

lemma contains_iff: "contains s sub \<longleftrightarrow> (\<exists>a b. s = a @ sub @ b)"
proof (induction s)
  case Nil
  then show ?case by auto
next
  case (Cons c cs)
  show ?case
  proof
    assume "contains (c # cs) sub"
    then consider "prefix sub (c # cs)" | "contains cs sub" by auto
    then show "\<exists>a b. c # cs = a @ sub @ b"
    proof cases
      case 1
      then obtain b where "c # cs = sub @ b" by (auto simp: prefix_def)
      then have "c # cs = [] @ sub @ b" by simp
      then show ?thesis by blast
    next
      case 2
      then obtain a b where "cs = a @ sub @ b" using Cons.IH by blast
      then have "c # cs = (c # a) @ sub @ b" by simp
      then show ?thesis by blast
    qed
  next
    assume "\<exists>a b. c # cs = a @ sub @ b"
    then obtain a b where ab: "c # cs = a @ sub @ b" by blast
    show "contains (c # cs) sub"
    proof (cases a)
      case Nil
      then have "prefix sub (c # cs)" using ab by (simp add: prefix_def)
      then show ?thesis by simp
    next
      case (Cons x xs)
      then have "cs = xs @ sub @ b" using ab by simp
      then have "contains cs sub" using Cons.IH by blast
      then show ?thesis by simp
    qed
  qed
qed

text \<open>
  What \<open>commit\<close> tests: when the command exits non-zero and its standard error holds
  "nothing to commit", \<open>commit\<close> returns normally; it raises \<^verbatim>\<open>GitError\<close> exactly for the
  other non-zero exits, whatever the standard output says.
\<close>

theorem commit_nothing_to_commit:
  "(git_result ev [''commit'', ''-m'', msg] = CalledProcessError out err \<and>
      contains err ''nothing to commit'' \<longrightarrow>
      fst (commit ev msg w) = Inr ())
   \<and> (fst (commit ev msg w) = Inl GitError \<longleftrightarrow>
        (\<exists>out err. git_result ev [''commit'', ''-m'', msg] = CalledProcessError out err \<and>
           \<not> contains err ''nothing to commit''))"
  by (auto simp: commit_def run_git_def split: run_result.splits)

theorem commit_nothing_to_commit_witness:
  "git_result (env_commit_fails '''' ''nothing to commit, working tree clean'')
       [''commit'', ''-m'', ''Update b: c''] =
     CalledProcessError '''' ''nothing to commit, working tree clean''
   \<and> contains ''nothing to commit, working tree clean'' ''nothing to commit''
   \<and> fst (commit (env_commit_fails '''' ''nothing to commit, working tree clean'')
             ''Update b: c'' empty_world) = Inr ()"
proof -
  let ?ev = "env_commit_fails '''' ''nothing to commit, working tree clean''"
  have 1: "git_result ?ev [''commit'', ''-m'', ''Update b: c''] =
     CalledProcessError '''' ''nothing to commit, working tree clean''"
    by (simp add: env_commit_fails_def)
  have 2: "contains ''nothing to commit, working tree clean'' ''nothing to commit''"
    by simp
  from commit_nothing_to_commit [of ?ev "''Update b: c''" "''''"
      "''nothing to commit, working tree clean''" empty_world] 1 2
  show ?thesis by blast
qed

text \<open>
  Claim C7 fails on the code. With nothing staged, \<^verbatim>\<open>git commit\<close> exits non-zero and
  reports "nothing to commit" on its standard output, with an empty standard error.
  \<open>commit\<close> looks for the report in the standard error only, finds none and raises
  \<^verbatim>\<open>GitError\<close>, although the comment in \<^verbatim>\<open>GitRepo.commit\<close> says that having no changes
  is not an error.
\<close>

theorem commit_nothing_staged_raises:
  "git_result env_nothing_staged [''commit'', ''-m'', ''Update Character: Hero''] =
     CalledProcessError nothing_staged_stdout [] \<and>
   contains nothing_staged_stdout ''nothing to commit'' \<and>
   fst (commit env_nothing_staged ''Update Character: Hero'' empty_world) = Inl GitError"
  by (simp add: commit_def run_git_def env_nothing_staged_def env_commit_fails_def
      nothing_staged_stdout_def newline_def)

text \<open>
  Claim C8, as the code has it. \<open>add\<close> and \<open>remove\<close> raise \<^verbatim>\<open>GitError\<close> and run no
  command whenever the components of the repository root are not a leading segment of
  the components of the path; otherwise they run the command on the remaining
  components. The comparison is on the components as written: nothing is resolved.
\<close>

theorem add_remove_outside_repo:
  "(\<not> prefix repo_path p \<longrightarrow>
      add ev repo_path p w = (Inl GitError, w) \<and> remove ev repo_path p w = (Inl GitError, w))
   \<and> (prefix repo_path p \<longrightarrow>
      git_log (snd (add ev repo_path p w)) =
        git_log w @ [[''add'', join_slash (drop (length repo_path) p)]] \<and>
      git_log (snd (remove ev repo_path p w)) =
        git_log w @ [[''rm'', join_slash (drop (length repo_path) p)]])"
  by (auto simp: add_def remove_def relative_to_def run_git_def split: run_result.splits)

theorem add_remove_outside_repo_witness:
  "\<not> prefix [''ws'', ''.repo''] [''etc'', ''passwd''] \<and>
   add env_ok [''ws'', ''.repo''] [''etc'', ''passwd''] empty_world = (Inl GitError, empty_world) \<and>
   remove env_ok [''ws'', ''.repo''] [''etc'', ''passwd''] empty_world = (Inl GitError, empty_world)"
  using add_remove_outside_repo [of "[''ws'', ''.repo'']" "[''etc'', ''passwd'']" env_ok empty_world]
  by simp

text \<open>
  Claim C8 as stated fails: a path that leaves the repository through a \<^verbatim>\<open>..\<close> component
  passes the check, and the command is run on it.
\<close>

theorem add_dotdot_counterexample:
  "resolve [''ws'', ''.repo'', ''..'', ''secret''] = [''ws'', ''secret''] \<and>
   \<not> prefix [''ws'', ''.repo''] (resolve [''ws'', ''.repo'', ''..'', ''secret'']) \<and>
   add env_ok [''ws'', ''.repo''] [''ws'', ''.repo'', ''..'', ''secret''] empty_world =
     (Inr (), \<lparr>fs = Map.empty, git_log = [[''add'', ''../secret'']]\<rparr>) \<and>
   remove env_ok [''ws'', ''.repo''] [''ws'', ''.repo'', ''..'', ''secret''] empty_world =
     (Inr (), \<lparr>fs = Map.empty, git_log = [[''rm'', ''../secret'']]\<rparr>)"
  by (simp add: resolve_def add_def remove_def relative_to_def run_git_def env_ok_def
      empty_world_def)

section \<open>Properties of format strings and the path generator\<close>

lemma prepend_simps [simp]:
  "prepend t (Inl e) = Inl e"
  "prepend t (Inr s) = Inr (t @ s)"
  "prepend [] r = r"
  "prepend t (prepend u r) = prepend (t @ u) r"
  by (auto simp: prepend_def split: sum.splits)

text \<open>Formatting literal text, and a replacement field, in front of a rest.\<close>

lemma format_lit_text:
  "CHR ''{'' \<notin> set t \<Longrightarrow> CHR ''}'' \<notin> set t \<Longrightarrow>
   format_lit (t @ rest) kw = prepend t (format_lit rest kw)"
proof (induction t)
  case Nil
  show ?case by simp
next
  case (Cons c t)
  from Cons.prems have c: "c \<noteq> CHR ''{''" "c \<noteq> CHR ''}''" by auto
  from Cons have "format_lit (t @ rest) kw = prepend t (format_lit rest kw)" by simp
  then show ?case using c by simp
qed

lemma format_field_name:
  "CHR ''}'' \<notin> set n \<Longrightarrow>
   format_field acc (n @ CHR ''}'' # rest) kw =
     (case get_field (rev acc @ n) kw of
        Inl e \<Rightarrow> Inl e
      | Inr v \<Rightarrow> prepend v (format_lit rest kw))"
  by (induction n arbitrary: acc) auto

lemma format_lit_placeholder:
  assumes "n \<in> {''module'', ''category'', ''feature''}"
  shows "format_lit (''{'' @ n @ ''}'' @ rest) kw =
     (case get_field n kw of
        Inl e \<Rightarrow> Inl e
      | Inr v \<Rightarrow> prepend v (format_lit rest kw))"
proof -
  have 1: "CHR ''}'' \<notin> set n" using assms by auto
  obtain c cs where 2: "n = c # cs" "c \<noteq> CHR ''{''" using assms by auto
  have "format_lit (''{'' @ n @ ''}'' @ rest) kw = format_field [] (n @ CHR ''}'' # rest) kw"
    using 2 by simp
  then show ?thesis using format_field_name [OF 1, of "[]" rest kw] by simp
qed

lemma get_field_known:
  assumes "n \<in> {''module'', ''category'', ''feature''}"
  shows "get_field n [(''module'', a), (''category'', b), (''feature'', c)] =
     Inr (fill [(''module'', a), (''category'', b), (''feature'', c)] (Placeholder n))"
  using assms by (auto simp: get_field_def field_specials_def is_digit_def)

text \<open>A template built from pieces with known placeholders is filled piece by piece.\<close>

lemma format_lit_render:
  assumes "list_all (piece_ok [''module'', ''category'', ''feature'']) ps"
  shows "format_lit (render ps) [(''module'', a), (''category'', b), (''feature'', c)] =
     Inr (concat (map (fill [(''module'', a), (''category'', b), (''feature'', c)]) ps))"
  using assms
proof (induction ps)
  case Nil
  show ?case by simp
next
  case (Cons p ps)
  then have ih: "format_lit (render ps) [(''module'', a), (''category'', b), (''feature'', c)] =
     Inr (concat (map (fill [(''module'', a), (''category'', b), (''feature'', c)]) ps))"
    by simp
  show ?case
  proof (cases p)
    case (Text t)
    then have "CHR ''{'' \<notin> set t" "CHR ''}'' \<notin> set t" using Cons.prems by auto
    then show ?thesis using Text ih by (simp add: format_lit_text)
  next
    case OpenBrace
    then show ?thesis using ih by simp
  next
    case CloseBrace
    then show ?thesis using ih by simp
  next
    case (Placeholder n)
    then have n: "n \<in> {''module'', ''category'', ''feature''}" using Cons.prems by auto
    have "format_lit (render (p # ps)) [(''module'', a), (''category'', b), (''feature'', c)] =
        format_lit (''{'' @ n @ ''}'' @ render ps) [(''module'', a), (''category'', b), (''feature'', c)]"
      using Placeholder by simp
    also have "\<dots> = Inr (fill [(''module'', a), (''category'', b), (''feature'', c)] (Placeholder n) @
           concat (map (fill [(''module'', a), (''category'', b), (''feature'', c)]) ps))"
      unfolding format_lit_placeholder [OF n] get_field_known [OF n] using ih by simp
    finally show ?thesis using Placeholder by simp
  qed
qed

text \<open>
  Claim C9, as the code has it. The orchestrator passes the keywords \<open>module\<close>,
  \<open>category\<close> and \<open>feature\<close> to the commit template. For every template made of literal
  text, escaped braces and the placeholders \<^verbatim>\<open>{module}\<close>, \<^verbatim>\<open>{category}\<close>, \<^verbatim>\<open>{feature}\<close> only,
  and every parsed filename, the substitution produces the message.
\<close>

theorem commit_message_succeeds:
  "git_commit_template (config pr) = render ps \<and>
   list_all (piece_ok [''module'', ''category'', ''feature'']) ps \<longrightarrow>
   commit_message pr parsed =
     Inr (concat (map (fill [(''module'', module parsed), (''category'', category parsed),
                            (''feature'', feature parsed)]) ps))"
  by (simp add: commit_message_def format_str_def format_lit_render)

theorem commit_message_succeeds_witness:
  "git_commit_template (config scenario_processor) =
     render [Text ''Update '', Placeholder ''category'', Text '': '', Placeholder ''feature''] \<and>
   list_all (piece_ok [''module'', ''category'', ''feature''])
     [Text ''Update '', Placeholder ''category'', Text '': '', Placeholder ''feature''] \<and>
   commit_message scenario_processor
     \<lparr>module = ''GameRes'', category = ''Character'', feature = ''Hero'', variant = None,
      extension = Some ''fbx'', original_name = ''GameRes_Character_Hero.fbx''\<rparr> =
     Inr ''Update Character: Hero''"
  using commit_message_succeeds [of scenario_processor
      "[Text ''Update '', Placeholder ''category'', Text '': '', Placeholder ''feature'']"
      "\<lparr>module = ''GameRes'', category = ''Character'', feature = ''Hero'', variant = None,
      extension = Some ''fbx'', original_name = ''GameRes_Character_Hero.fbx''\<rparr>"]
  by (simp add: scenario_processor_def scenario_config_def)

text \<open>
  Claim C9 as stated fails: the default template of \<^verbatim>\<open>constants.py\<close> uses only the
  placeholders \<^verbatim>\<open>{category}\<close>, \<^verbatim>\<open>{feature}\<close>, \<^verbatim>\<open>{file_count}\<close>, \<^verbatim>\<open>{file_list}\<close>, and the
  substitution raises \<^verbatim>\<open>KeyError\<close> on it.
\<close>

theorem commit_message_counterexample:
  "DEFAULT_COMMIT_TEMPLATE =
     render [Text ''feat(assets): Add '', Placeholder ''category'', Text [newline, newline],
             Text ''Feature: '', Placeholder ''feature'', Text [newline],
             Text ''Files: '', Placeholder ''file_count'', Text [newline, newline],
             Placeholder ''file_list''] \<and>
   list_all (piece_ok [''category'', ''feature'', ''file_count'', ''file_list''])
            [Text ''feat(assets): Add '', Placeholder ''category'', Text [newline, newline],
             Text ''Feature: '', Placeholder ''feature'', Text [newline],
             Text ''Files: '', Placeholder ''file_count'', Text [newline, newline],
             Placeholder ''file_list''] \<and>
   commit_message default_template_processor
     \<lparr>module = ''GameRes'', category = ''Character'', feature = ''Hero'', variant = None,
      extension = Some ''fbx'', original_name = ''GameRes_Character_Hero.fbx''\<rparr> =
     Inl (KeyError ''file_count'')"
  by (simp add: DEFAULT_COMMIT_TEMPLATE_def newline_def commit_message_def format_str_def
      get_field_def field_specials_def is_digit_def default_template_processor_def
      scenario_processor_def scenario_config_def)

text \<open>The replacement loop of \<^verbatim>\<open>sanitize_path_component\<close> as one pass.\<close>

lemma foldl_str_replace:
  "foldl (\<lambda>comp ch. str_replace ch CHR ''_'' comp) x cs =
     map (\<lambda>c. if c \<in> set cs then CHR ''_'' else c) x"
proof (induction cs arbitrary: x)
  case Nil
  show ?case by simp
next
  case (Cons a cs)
  have "foldl (\<lambda>comp ch. str_replace ch CHR ''_'' comp) x (a # cs) =
      foldl (\<lambda>comp ch. str_replace ch CHR ''_'' comp) (str_replace a CHR ''_'' x) cs"
    by simp
  also have "\<dots> = map (\<lambda>c. if c \<in> set cs then CHR ''_'' else c) (str_replace a CHR ''_'' x)"
    by (rule Cons.IH)
  also have "\<dots> = map (\<lambda>c. if c \<in> set (a # cs) then CHR ''_'' else c) x"
    by (auto simp: str_replace_def)
  finally show ?case .
qed

lemma sanitize_path_component_eq:
  "sanitize_path_component x =
     take 100 (map (\<lambda>c. if c \<in> set unsafe_chars then CHR ''_'' else c) x)"
  by (simp add: sanitize_path_component_def foldl_str_replace Let_def)

lemma sanitize_safe:
  "set (sanitize_path_component x) \<inter> set unsafe_chars = {}"
proof -
  have "set (map (\<lambda>c. if c \<in> set unsafe_chars then CHR ''_'' else c) x) \<inter> set unsafe_chars = {}"
    by (auto simp: unsafe_chars_def)
  moreover have "set (sanitize_path_component x) \<subseteq>
      set (map (\<lambda>c. if c \<in> set unsafe_chars then CHR ''_'' else c) x)"
    unfolding sanitize_path_component_eq by (rule set_take_subset)
  ultimately show ?thesis by blast
qed

lemma sanitize_length: "length (sanitize_path_component x) \<le> 100"
  by (simp add: sanitize_path_component_eq)

text \<open>Splitting a string at separators that stand between its parts.\<close>

lemma split_on_no_sep: "sep \<notin> set a \<Longrightarrow> split_on sep a = [a]"
  by (induction a) auto

lemma split_on_append:
  "sep \<notin> set a \<Longrightarrow> split_on sep (a @ sep # rest) = a # split_on sep rest"
proof (induction a)
  case Nil
  show ?case by simp
next
  case (Cons c a)
  then have "c \<noteq> sep" "split_on sep (a @ sep # rest) = a # split_on sep rest" by auto
  then show ?case by simp
qed

lemma format_scenario_template:
  "format_str ''{module}/{category}/{feature}/''
     [(''module'', a), (''category'', b), (''feature'', c)] = Inr (a @ ''/'' @ b @ ''/'' @ c @ ''/'')"
  by (simp add: format_str_def get_field_def field_specials_def is_digit_def)

lemma split_path_three:
  assumes "plain_component a" "plain_component b" "plain_component c"
  shows "split_path (a @ ''/'' @ b @ ''/'' @ c @ ''/'') = [a, b, c]"
    and "\<not> is_absolute (a @ ''/'' @ b @ ''/'' @ c @ ''/'')"
proof -
  have s: "CHR ''/'' \<notin> set a" "CHR ''/'' \<notin> set b" "CHR ''/'' \<notin> set c"
    using assms by (auto simp: plain_component_def)
  have "split_on CHR ''/'' (a @ ''/'' @ b @ ''/'' @ c @ ''/'') = [a, b, c, []]"
    using s by (simp add: split_on_append)
  then show "split_path (a @ ''/'' @ b @ ''/'' @ c @ ''/'') = [a, b, c]"
    using assms by (simp add: split_path_def plain_component_def)
  show "\<not> is_absolute (a @ ''/'' @ b @ ''/'' @ c @ ''/'')"
    using assms by (cases a) (auto simp: is_absolute_def plain_component_def)
qed

lemma pjoin_plain:
  assumes "plain_component n"
  shows "pjoin p n = p @ [n]"
proof -
  have "\<not> is_absolute n" using assms by (cases n) (auto simp: is_absolute_def plain_component_def)
  moreover have "split_path n = [n]"
    using assms by (simp add: split_path_def plain_component_def split_on_no_sep)
  ultimately show ?thesis by (simp add: pjoin_def)
qed

text \<open>
  What the two functions of the path generator do. \<open>sanitize_path_component\<close> returns
  a string with none of the characters \<^verbatim>\<open>< > : " | ? * \ /\<close> and of length at most 100.
  \<open>generate\<close> does not call it: with the sample template, fields that are single path
  components become the directory components below the asset root as they are.
\<close>

theorem generate_interpolates_unsanitized:
  "set (sanitize_path_component x) \<inter> set unsafe_chars = {} \<and>
   length (sanitize_path_component x) \<le> 100 \<and>
   (pg_path_template pg = ''{module}/{category}/{feature}/'' \<and>
    plain_component (module p) \<and> plain_component (category p) \<and>
    plain_component (feature p) \<and> plain_component (original_name p) \<longrightarrow>
    generate pg p repo_base =
      Inr (pjoin repo_base (pg_asset_root pg) @
           [module p, category p, feature p, original_name p]))"
proof (intro conjI impI)
  show "set (sanitize_path_component x) \<inter> set unsafe_chars = {}" by (rule sanitize_safe)
  show "length (sanitize_path_component x) \<le> 100" by (rule sanitize_length)
next
  assume h: "pg_path_template pg = ''{module}/{category}/{feature}/'' \<and>
    plain_component (module p) \<and> plain_component (category p) \<and>
    plain_component (feature p) \<and> plain_component (original_name p)"
  let ?rel = "module p @ ''/'' @ category p @ ''/'' @ feature p @ ''/''"
  have rel: "split_path ?rel = [module p, category p, feature p]" "\<not> is_absolute ?rel"
    using h split_path_three by blast+
  have "generate pg p repo_base =
      Inr (pjoin (pjoin (pjoin repo_base (pg_asset_root pg)) ?rel) (original_name p))"
    using h by (simp add: generate_def format_scenario_template Let_def)
  also have "pjoin (pjoin repo_base (pg_asset_root pg)) ?rel =
      pjoin repo_base (pg_asset_root pg) @ [module p, category p, feature p]"
    using rel by (simp add: pjoin_def)
  finally show "generate pg p repo_base =
      Inr (pjoin repo_base (pg_asset_root pg) @
           [module p, category p, feature p, original_name p])"
    using h by (simp add: pjoin_plain)
qed

theorem generate_interpolates_unsanitized_witness:
  "plain_component ''GameRes'' \<and> plain_component ''Character'' \<and> plain_component ''Hero'' \<and>
   plain_component ''GameRes_Character_Hero.fbx'' \<and>
   generate scenario_path_gen
     \<lparr>module = ''GameRes'', category = ''Character'', feature = ''Hero'', variant = None,
      extension = Some ''fbx'', original_name = ''GameRes_Character_Hero.fbx''\<rparr>
     [''ws'', ''.repo''] = Inr target_file"
  using generate_interpolates_unsanitized [of "''x''" scenario_path_gen
     "\<lparr>module = ''GameRes'', category = ''Character'', feature = ''Hero'', variant = None,
      extension = Some ''fbx'', original_name = ''GameRes_Character_Hero.fbx''\<rparr>"
     "[''ws'', ''.repo'']"]
  by (simp add: scenario_path_gen_def plain_component_def pjoin_def split_path_def
      is_absolute_def target_file_def)

text \<open>
  Claim C5 fails on the code. The path generator has \<open>sanitize_path_component\<close> for
  components such as the module and category names, but neither \<open>generate\<close> nor its
  caller applies it. A filename whose module part holds a colon, accepted by a pattern
  that allows it, gives a target path with the colon in a directory component, where
  the sanitized component would have an underscore.
\<close>

theorem generate_keeps_unsafe_character:
  "parse loose_regex ''a:b_c_d.x'' =
     Inr \<lparr>module = ''a:b'', category = ''c'', feature = ''d'', variant = None,
          extension = Some ''x'', original_name = ''a:b_c_d.x''\<rparr> \<and>
   generate scenario_path_gen
     \<lparr>module = ''a:b'', category = ''c'', feature = ''d'', variant = None,
      extension = Some ''x'', original_name = ''a:b_c_d.x''\<rparr> [''ws'', ''.repo''] =
     Inr [''ws'', ''.repo'', ''Assets'', ''GameRes'', ''a:b'', ''c'', ''d'', ''a:b_c_d.x''] \<and>
   CHR '':'' \<in> set ''a:b'' \<and> CHR '':'' \<in> set unsafe_chars \<and>
   sanitize_path_component ''a:b'' = ''a_b''"
  by (simp add: parse_def re_match_def loose_regex_def underscore_def dot_def Plus_def
      is_word_def dict_get_def generate_def format_str_def get_field_def field_specials_def
      is_digit_def scenario_path_gen_def pjoin_def split_path_def is_absolute_def
      unsafe_chars_def sanitize_path_component_def str_replace_def)

section \<open>Properties of the file system calls and the failure sink\<close>

text \<open>
  What \<open>mkdir_parents\<close> and \<open>shutil_move\<close> change and what they leave alone.
\<close>

lemma mkdir_parents_other:
  "mkdir_parents d fs0 = Inr fs1 \<Longrightarrow> \<not> prefix p d \<Longrightarrow> fs1 p = fs0 p"
  by (auto simp: mkdir_parents_def split: if_splits)

lemma mkdir_parents_is_dir:
  "mkdir_parents d fs0 = Inr fs1 \<Longrightarrow> is_dir fs1 d"
  by (auto simp: mkdir_parents_def is_dir_def split: if_splits)

lemma mkdir_parents_ok:
  "\<not> list_ex (is_file fs0) (prefixes d) \<Longrightarrow>
   mkdir_parents d fs0 = Inr (\<lambda>q. if prefix q d then Some Dir else fs0 q)"
  by (simp add: mkdir_parents_def)

lemma shutil_move_file:
  assumes "fs0 src = Some (File c)" "src \<noteq> []" "\<not> is_dir fs0 dst" "is_dir fs0 (parent dst)"
  shows "shutil_move src dst fs0 = Inr ((fs0(src := None))(dst \<mapsto> File c))"
  using assms by (simp add: shutil_move_def Let_def)

lemma prefix_snoc_trans: "prefix (d @ [x]) p \<Longrightarrow> prefix d p"
  by (metis prefix_order.trans prefixI)

lemma shutil_move_other:
  assumes "shutil_move src dst fs0 = Inr fs1"
    and "\<not> prefix src p" "\<not> prefix dst p" "\<not> prefix p dst"
  shows "fs1 p = fs0 p"
proof -
  let ?rd = "if is_dir fs0 dst then dst @ [name src] else dst"
  have rd: "\<not> prefix ?rd p" using assms(3) by (auto dest: prefix_snoc_trans)
  then have ne: "p \<noteq> ?rd" "p \<noteq> src" using assms(2) by auto
  have "prefix p (butlast dst) \<Longrightarrow> prefix p dst"
    using prefixeq_butlast [of dst] by (rule prefix_order.trans [rotated])
  then have pp: "\<not> prefix p (parent ?rd)"
    using assms(4) by (auto simp: parent_def)
  have mk: "\<And>fs'. mkdir_parents (parent ?rd) fs0 = Inr fs' \<Longrightarrow> fs' p = fs0 p"
    using pp by (rule mkdir_parents_other [rotated])
  show ?thesis
  proof (cases "is_dir fs0 dst \<and> src = dst")
    case True
    then show ?thesis using assms(1) by (simp add: shutil_move_def)
  next
    case False
    then show ?thesis using assms(1) rd ne assms(2) mk
      by (auto simp: shutil_move_def rename_tree_def Let_def
          split: if_splits option.splits node.splits sum.splits)
  qed
qed

text \<open>
  \<open>move_to_failed\<close> runs no command, touches only the source, the failed directory and
  its ancestors, and puts a regular file under its own name, or under the time-stamped
  name when its own is taken.
\<close>

lemma move_to_failed_git_log: "git_log (move_to_failed c ev src w) = git_log w"
  by (simp add: move_to_failed_def Let_def split: sum.splits)

lemma move_to_failed_other:
  assumes "\<not> prefix src p" "\<not> prefix (Config_failed c) p" "\<not> prefix p (Config_failed c)"
  shows "fs (move_to_failed c ev src w) p = fs w p"
proof (cases "mkdir_parents (Config_failed c) (fs w)")
  case (Inl e)
  then show ?thesis by (simp add: move_to_failed_def)
next
  case (Inr fs1)
  have 1: "fs1 p = fs w p" using mkdir_parents_other [OF Inr assms(3)] .
  let ?dst = "if exists fs1 (Config_failed c @ [name src])
      then Config_failed c @ [path_stem src @ ''_'' @ now ev @ path_suffix src]
      else Config_failed c @ [name src]"
  have 2: "\<not> prefix ?dst p" using assms(2) by (auto dest: prefix_snoc_trans)
  have 3: "\<not> prefix p ?dst" using assms(2,3) by (auto simp: prefix_snoc)
  show ?thesis
  proof (cases "shutil_move src ?dst fs1")
    case (Inl e)
    then show ?thesis using Inr 1 by (simp add: move_to_failed_def Let_def)
  next
    case (Inr fs2)
    have "fs2 p = fs1 p" using shutil_move_other [OF Inr assms(1) 2 3] .
    then show ?thesis using \<open>mkdir_parents (Config_failed c) (fs w) = Inr fs1\<close> Inr 1
      by (simp add: move_to_failed_def Let_def)
  qed
qed

lemma move_to_failed_file:
  assumes src: "fs w src = Some (File x)" "src \<noteq> []"
    and mk: "\<not> list_ex (is_file (fs w)) (prefixes (Config_failed c))"
    and np: "\<not> prefix src (Config_failed c)"
    and dest: "dest = (if fs w (Config_failed c @ [name src]) \<noteq> None
                 then Config_failed c @ [path_stem src @ ''_'' @ now ev @ path_suffix src]
                 else Config_failed c @ [name src])"
    and free: "fs w dest = None" "src \<noteq> dest"
  shows "fs (move_to_failed c ev src w) dest = Some (File x) \<and>
         fs (move_to_failed c ev src w) src = None"
proof -
  let ?fs1 = "\<lambda>q. if prefix q (Config_failed c) then Some Dir else fs w q"
  have m: "mkdir_parents (Config_failed c) (fs w) = Inr ?fs1" using mk by (rule mkdir_parents_ok)
  have a: "\<And>y. ?fs1 (Config_failed c @ [y]) = fs w (Config_failed c @ [y])" by simp
  have e: "exists ?fs1 (Config_failed c @ [name src]) = (fs w (Config_failed c @ [name src]) \<noteq> None)"
    by (simp add: exists_def)
  have d: "dest = (if exists ?fs1 (Config_failed c @ [name src])
                 then Config_failed c @ [path_stem src @ ''_'' @ now ev @ path_suffix src]
                 else Config_failed c @ [name src])"
    unfolding e by (rule dest)
  have d1: "?fs1 dest = None" "dest \<noteq> []" "parent dest = Config_failed c"
    using free(1) dest by (auto simp: parent_def)
  have mv: "shutil_move src dest ?fs1 = Inr ((?fs1(src := None))(dest \<mapsto> File x))"
  proof (rule shutil_move_file)
    show "?fs1 src = Some (File x)" using src np by simp
    show "src \<noteq> []" by fact
    show "\<not> is_dir ?fs1 dest" using d1 by (simp add: is_dir_def)
    show "is_dir ?fs1 (parent dest)" using d1 by (simp add: is_dir_def)
  qed
  have "move_to_failed c ev src w = w\<lparr>fs := (?fs1(src := None))(dest \<mapsto> File x)\<rparr>"
  proof (cases "exists ?fs1 (Config_failed c @ [name src])")
    case True
    then have "dest = Config_failed c @ [path_stem src @ ''_'' @ now ev @ path_suffix src]"
      using d by simp
    then show ?thesis using True m mv by (simp add: move_to_failed_def Let_def)
  next
    case False
    then have "dest = Config_failed c @ [name src]" using d by simp
    then show ?thesis using False m mv by (simp add: move_to_failed_def Let_def)
  qed
  then show ?thesis using free(2) by simp
qed

text \<open>
  Two different entries of one directory: nothing lies below both.
\<close>

lemma sibling_prefix:
  "prefix (b @ x # r) p \<Longrightarrow> prefix (b @ y # r') p \<Longrightarrow> x = y"
  by (auto simp: prefix_def)

lemma sibling_prefix':
  "prefix (b @ [x]) p \<Longrightarrow> prefix p (b @ [y]) \<Longrightarrow> x = y"
  by (auto simp: prefix_def append_eq_append_conv2 Cons_eq_append_conv)

text \<open>
  Without interference from the environment the version-control steps leave the file
  system as it is.
\<close>

lemma run_git_fs:
  "\<forall>args f. git_effect ev args f = f \<Longrightarrow> fs (snd (run_git ev a w)) = fs w"
  by (simp add: run_git_def)



section \<open>Properties of the orchestrator\<close>

text \<open>
  The definitions of the scenarios and of the model, for evaluating \<open>process\<close> on a
  scenario.
\<close>

lemmas scenario_defs =
  scenario_processor_def default_template_processor_def scenario_config_def scenario_path_gen_def
  scenario_regex_def underscore_def dot_def Plus_def
  inbox_file_def target_file_def failed_file_def failed_file_stamped_def scenario_fs_def
  scenario_world_def no_repo_world_def bad_file_def bad_name_world_def
  env_ok_def env_push_fails_def env_inbox_deleted_def env_git_missing_def
  DEFAULT_COMMIT_TEMPLATE_def newline_def

lemmas model_defs =
  process_def process_try_def git_stage_def commit_message_def handle_git_failure_def
  move_to_failed_def pull_def add_def commit_def push_def run_git_def repo_exists_def
  generate_def format_str_def get_field_def field_specials_def is_digit_def
  parse_def re_match_def dict_get_def is_word_def
  pjoin_def split_path_def is_absolute_def name_def parent_def relative_to_def
  path_stem_def path_suffix_def rfind_dot_def
  mkdir_parents_def shutil_move_def rename_tree_def exists_def is_dir_def is_file_def
  Config_repo_def Config_failed_def Config_inbox_def



text \<open>
  Claim C2, as the code has it. When the working copy does not exist or the filename
  does not parse, \<open>process\<close> returns \<open>False\<close>, runs no version-control command and
  changes nothing below the repository directory, so the file is not moved to the
  target path. It is not free of side effects: it hands the file to \<open>move_to_failed\<close>,
  which moves a regular file from the inbox into the failed directory, under its own
  name or under the time-stamped name when its own is taken.
\<close>

theorem process_fails_before_move:
  "file_path = Config_inbox (config pr) @ [n] \<and>
   (\<not> repo_exists (repo pr) w \<or> parse (parser pr) n = Inl e) \<longrightarrow>
     process pr ev file_path w = (False, move_to_failed (config pr) ev file_path w) \<and>
     git_log (snd (process pr ev file_path w)) = git_log w \<and>
     (\<forall>p. prefix (Config_repo (config pr)) p \<longrightarrow>
        fs (snd (process pr ev file_path w)) p = fs w p) \<and>
     (\<forall>x dest.
        fs w file_path = Some (File x) \<and>
        \<not> list_ex (is_file (fs w)) (prefixes (Config_failed (config pr))) \<and>
        dest = (if fs w (Config_failed (config pr) @ [n]) \<noteq> None
                then Config_failed (config pr) @
                       [path_stem file_path @ ''_'' @ now ev @ path_suffix file_path]
                else Config_failed (config pr) @ [n]) \<and>
        fs w dest = None \<longrightarrow>
        fs (snd (process pr ev file_path w)) dest = Some (File x) \<and>
        fs (snd (process pr ev file_path w)) file_path = None)"
proof (intro impI)
  assume h: "file_path = Config_inbox (config pr) @ [n] \<and>
   (\<not> repo_exists (repo pr) w \<or> parse (parser pr) n = Inl e)"
  let ?c = "config pr"
  let ?b = "workspace_base ?c"
  have fp: "file_path = ?b @ [''inbox'', n]" "name file_path = n" "file_path \<noteq> []"
    using h by (simp_all add: Config_inbox_def name_def)
  have pt: "\<exists>e'. process_try pr ev file_path w = (Inl e', w)"
    using h fp(2) by (auto simp: process_try_def)
  then have p: "process pr ev file_path w = (False, move_to_failed ?c ev file_path w)"
    by (auto simp: process_def)
  have g: "git_log (snd (process pr ev file_path w)) = git_log w"
    unfolding p by (simp add: move_to_failed_git_log)
  have r: "\<forall>p. prefix (Config_repo ?c) p \<longrightarrow> fs (snd (process pr ev file_path w)) p = fs w p"
  proof (intro allI impI)
    fix q assume q: "prefix (Config_repo ?c) q"
    then have q': "prefix (?b @ ''.repo'' # []) q" by (simp add: Config_repo_def)
    have 1: "\<not> prefix file_path q"
      using sibling_prefix [of ?b "''inbox''" "[n]" q "''.repo''" "[]"] q' fp(1) by auto
    have 2: "\<not> prefix (Config_failed ?c) q"
      using sibling_prefix [of ?b "''failed''" "[]" q "''.repo''" "[]"] q'
      by (auto simp: Config_failed_def)
    have 3: "\<not> prefix q (Config_failed ?c)"
      using sibling_prefix' [of ?b "''.repo''" q "''failed''"] q'
      by (auto simp: Config_failed_def)
    show "fs (snd (process pr ev file_path w)) q = fs w q"
      unfolding p using move_to_failed_other [OF 1 2 3] by simp
  qed
  have f: "\<forall>x dest.
        fs w file_path = Some (File x) \<and>
        \<not> list_ex (is_file (fs w)) (prefixes (Config_failed ?c)) \<and>
        dest = (if fs w (Config_failed ?c @ [n]) \<noteq> None
                then Config_failed ?c @
                       [path_stem file_path @ ''_'' @ now ev @ path_suffix file_path]
                else Config_failed ?c @ [n]) \<and>
        fs w dest = None \<longrightarrow>
        fs (snd (process pr ev file_path w)) dest = Some (File x) \<and>
        fs (snd (process pr ev file_path w)) file_path = None"
  proof (intro allI impI)
    fix x dest
    assume a: "fs w file_path = Some (File x) \<and>
        \<not> list_ex (is_file (fs w)) (prefixes (Config_failed ?c)) \<and>
        dest = (if fs w (Config_failed ?c @ [n]) \<noteq> None
                then Config_failed ?c @
                       [path_stem file_path @ ''_'' @ now ev @ path_suffix file_path]
                else Config_failed ?c @ [n]) \<and>
        fs w dest = None"
    have np: "\<not> prefix file_path (Config_failed ?c)"
      using fp(1) by (auto simp: Config_failed_def prefix_def)
    have ne: "file_path \<noteq> dest" using a fp(1) by (auto simp: Config_failed_def)
    have "fs (move_to_failed ?c ev file_path w) dest = Some (File x) \<and>
         fs (move_to_failed ?c ev file_path w) file_path = None"
      using a fp(2) by (intro move_to_failed_file [OF _ fp(3) _ np _ _ ne]) auto
    then show "fs (snd (process pr ev file_path w)) dest = Some (File x) \<and>
        fs (snd (process pr ev file_path w)) file_path = None"
      unfolding p by simp
  qed
  from p g r f show "process pr ev file_path w = (False, move_to_failed (config pr) ev file_path w) \<and>
     git_log (snd (process pr ev file_path w)) = git_log w \<and>
     (\<forall>p. prefix (Config_repo (config pr)) p \<longrightarrow>
        fs (snd (process pr ev file_path w)) p = fs w p) \<and>
     (\<forall>x dest.
        fs w file_path = Some (File x) \<and>
        \<not> list_ex (is_file (fs w)) (prefixes (Config_failed (config pr))) \<and>
        dest = (if fs w (Config_failed (config pr) @ [n]) \<noteq> None
                then Config_failed (config pr) @
                       [path_stem file_path @ ''_'' @ now ev @ path_suffix file_path]
                else Config_failed (config pr) @ [n]) \<and>
        fs w dest = None \<longrightarrow>
        fs (snd (process pr ev file_path w)) dest = Some (File x) \<and>
        fs (snd (process pr ev file_path w)) file_path = None)"
    by blast
qed

theorem process_fails_before_move_witness:
  "\<not> repo_exists (repo scenario_processor) no_repo_world \<and>
   fst (process scenario_processor env_ok inbox_file no_repo_world) = False \<and>
   git_log (snd (process scenario_processor env_ok inbox_file no_repo_world)) = [] \<and>
   fs (snd (process scenario_processor env_ok inbox_file no_repo_world)) failed_file =
     Some (File ''mesh'') \<and>
   fs (snd (process scenario_processor env_ok inbox_file no_repo_world)) inbox_file = None"
proof -
  let ?pr = scenario_processor and ?w = no_repo_world
  let ?n = "''GameRes_Character_Hero.fbx''"
  have 1: "inbox_file = Config_inbox (config ?pr) @ [?n]"
    by (simp add: inbox_file_def Config_inbox_def scenario_processor_def scenario_config_def)
  have 2: "\<not> repo_exists (repo ?pr) ?w"
    by (simp add: repo_exists_def exists_def scenario_processor_def no_repo_world_def
        inbox_file_def)
  have 3: "fs ?w inbox_file = Some (File ''mesh'') \<and>
        \<not> list_ex (is_file (fs ?w)) (prefixes (Config_failed (config ?pr))) \<and>
        failed_file = (if fs ?w (Config_failed (config ?pr) @ [?n]) \<noteq> None
                then Config_failed (config ?pr) @
                       [path_stem inbox_file @ ''_'' @ now env_ok @ path_suffix inbox_file]
                else Config_failed (config ?pr) @ [?n]) \<and>
        fs ?w failed_file = None"
    by (simp add: is_file_def Config_failed_def scenario_processor_def scenario_config_def
        no_repo_world_def inbox_file_def failed_file_def)
  have 4: "git_log ?w = []" by (simp add: no_repo_world_def)
  note t = process_fails_before_move [where file_path = inbox_file and pr = ?pr and n = ?n
      and w = ?w and e = ParseError and ev = env_ok]
  from t 1 2 3 have a: "process ?pr env_ok inbox_file ?w =
        (False, move_to_failed (config ?pr) env_ok inbox_file ?w)"
    and b: "git_log (snd (process ?pr env_ok inbox_file ?w)) = git_log ?w"
    and c: "fs (snd (process ?pr env_ok inbox_file ?w)) failed_file = Some (File ''mesh'') \<and>
      fs (snd (process ?pr env_ok inbox_file ?w)) inbox_file = None"
    by blast+
  have d: "fst (process ?pr env_ok inbox_file ?w) = False" unfolding a by simp
  from 2 d b [unfolded 4] c show ?thesis by blast
qed

text \<open>
  Claim C2 as stated fails: with the working copy missing, and with a filename that
  does not parse, the file leaves the inbox and ends in the failed directory.
\<close>

theorem process_moves_to_failed_counterexample:
  "in_inbox no_repo_world inbox_file \<and>
   \<not> repo_exists (repo scenario_processor) no_repo_world \<and>
   (\<exists>w'. process scenario_processor env_ok inbox_file no_repo_world = (False, w') \<and>
      \<not> in_inbox w' inbox_file \<and> is_file (fs w') failed_file) \<and>
   in_inbox bad_name_world bad_file \<and>
   parse (parser scenario_processor) (name bad_file) = Inl ParseError \<and>
   (\<exists>w'. process scenario_processor env_ok bad_file bad_name_world = (False, w') \<and>
      \<not> in_inbox w' bad_file \<and> is_file (fs w') [''ws'', ''failed'', ''bad name.fbx''])"
  by (simp add: model_defs scenario_defs in_inbox_def)






text \<open>
  Claim C1 fails on the code. With the default commit template of \<^verbatim>\<open>constants.py\<close> the
  commit message cannot be built after the file was moved and added; the \<^verbatim>\<open>KeyError\<close>
  reaches the general handler, whose \<^verbatim>\<open>_move_to_failed(file_path)\<close> looks for the file
  at its old inbox path and fails. \<open>process\<close> returns \<open>False\<close> with the file neither in
  the inbox, nor committed and pushed, nor in the failed directory: it lies at the
  target path, uncommitted.
\<close>

theorem process_strands_file:
  "in_inbox scenario_world inbox_file \<and>
   (\<exists>w'. process default_template_processor env_ok inbox_file scenario_world = (False, w') \<and>
      \<not> in_inbox w' inbox_file \<and>
      \<not> committed_and_pushed env_ok w' target_file \<and>
      \<not> in_failed (config default_template_processor) env_ok w' inbox_file \<and>
      is_file (fs w') target_file \<and>
      git_log w' =
        [[''pull''],
         [''add'', ''Assets/GameRes/GameRes/Character/Hero/GameRes_Character_Hero.fbx'']])"
  by (simp add: model_defs scenario_defs in_inbox_def committed_and_pushed_def in_failed_def)

text \<open>
  On the same workspace with the sample template, the file is handed off.
\<close>

lemma process_hands_off:
  "\<exists>w'. process scenario_processor env_ok inbox_file scenario_world = (True, w') \<and>
      \<not> in_inbox w' inbox_file \<and>
      committed_and_pushed env_ok w' target_file \<and>
      \<not> in_failed (config scenario_processor) env_ok w' inbox_file"
  by (simp add: model_defs scenario_defs in_inbox_def committed_and_pushed_def in_failed_def)

text \<open>
  With nothing staged, the report of \<^verbatim>\<open>git commit\<close> on its standard output makes the
  handoff fail: the file is moved back to the inbox and nothing is pushed.
\<close>

lemma process_nothing_staged:
  "\<exists>w'. process scenario_processor env_nothing_staged inbox_file scenario_world = (False, w') \<and>
      in_inbox w' inbox_file \<and> \<not> is_file (fs w') target_file \<and>
      git_log w' =
        [[''pull''],
         [''add'', ''Assets/GameRes/GameRes/Character/Hero/GameRes_Character_Hero.fbx''],
         [''commit'', ''-m'', ''Update Character: Hero'']]"
  by (simp add: model_defs scenario_defs in_inbox_def env_nothing_staged_def
      env_commit_fails_def nothing_staged_stdout_def Let_def)

text \<open>
  A file with a colon in its module part is handed off into a directory with that
  colon in its name.
\<close>

lemma process_keeps_unsafe_character:
  "\<exists>w'. process loose_processor env_ok colon_file colon_world = (True, w') \<and>
      is_file (fs w')
        [''ws'', ''.repo'', ''Assets'', ''GameRes'', ''a:b'', ''c'', ''d'', ''a:b_c_d.x''] \<and>
      is_dir (fs w') [''ws'', ''.repo'', ''Assets'', ''GameRes'', ''a:b'']"
  by (simp add: model_defs scenario_defs loose_processor_def loose_regex_def colon_file_def
      colon_world_def)

end
